theory Spec2Isabelle
  imports Complex_Main "HOL-Library.Product_Lexorder"
begin

section \<open>Inventory service: domain entities\<close>

text \<open>
  The entities of \<^verbatim>\<open>inventory-service/src/domain/entities/material.py\<close>.
  Python integers are unbounded, so every quantity is an \<^typ>\<open>int\<close>. The timestamps
  \<^verbatim>\<open>created_at\<close>, \<^verbatim>\<open>updated_at\<close> and \<^verbatim>\<open>fulfilled_at\<close> are written by the
  operations below but never read by them; the rows are modelled without them.
\<close>

datatype MaterialUnit = PIECES | METERS | KILOGRAMS | LITERS | CUBIC_METERS | SQUARE_METERS

datatype StockUpdateReason =
  PURCHASE | MANUAL_ADJUSTMENT | CONSUMPTION | RESERVATION | RELEASE | INITIAL

record material =
  m_id :: string
  m_name :: string
  m_unit :: MaterialUnit
  m_category :: string
  m_quantity :: int
  m_reserved :: int
  m_min_threshold :: int

text \<open>\<^verbatim>\<open>Material.available\<close>: \<^verbatim>\<open>max(0, self.quantity - self.reserved)\<close>.\<close>

definition available :: "material \<Rightarrow> int" where
  "available m = max 0 (m_quantity m - m_reserved m)"

definition is_low_stock :: "material \<Rightarrow> bool" where
  "is_low_stock m \<longleftrightarrow> available m < m_min_threshold m"

definition can_reserve :: "material \<Rightarrow> int \<Rightarrow> bool" where
  "can_reserve m quantity \<longleftrightarrow> available m \<ge> quantity"

text \<open>
  The mutating methods of the entity return the updated entity together with the
  method's return value.
\<close>

definition Material_reserve :: "material \<Rightarrow> int \<Rightarrow> material \<times> bool" where
  "Material_reserve m quantity =
     (if \<not> can_reserve m quantity then (m, False)
      else (m\<lparr>m_reserved := m_reserved m + quantity\<rparr>, True))"

definition Material_release :: "material \<Rightarrow> int \<Rightarrow> material \<times> bool" where
  "Material_release m quantity =
     (if quantity > m_reserved m then (m, False)
      else (m\<lparr>m_reserved := m_reserved m - quantity\<rparr>, True))"

definition Material_update_quantity :: "material \<Rightarrow> int \<Rightarrow> StockUpdateReason \<Rightarrow> material \<times> int" where
  "Material_update_quantity m delta reason =
     (let q = max 0 (m_quantity m + delta) in (m\<lparr>m_quantity := q\<rparr>, q))"

record stock_movement =
  sm_id :: string
  sm_material_id :: string
  sm_quantity_delta :: int
  sm_reason :: string
  sm_reference_id :: "string option"

text \<open>
  A reservation row. Its status is a plain string in the source
  (\<^verbatim>\<open>"ACTIVE"\<close>, \<^verbatim>\<open>"FULFILLED"\<close>, \<^verbatim>\<open>"CANCELLED"\<close>), compared with \<^verbatim>\<open>!=\<close>.
\<close>

record reservation =
  rs_material_id :: string
  rs_request_id :: string
  rs_quantity :: int
  rs_status :: string

section \<open>Inventory service: the SQLAlchemy material repository\<close>

text \<open>
  The three tables of \<^verbatim>\<open>models.py\<close> as one state: materials and reservations keyed
  by their primary key, stock movements as the append-only list of the rows added.
  A \<^verbatim>\<open>select ... where id == x\<close> followed by \<^verbatim>\<open>scalar_one_or_none()\<close> is a lookup in
  the map. Each method commits what it changed, so a method is one step from state to
  state. \<^verbatim>\<open>str(uuid.uuid4())\<close> is an input of the step (the identifier drawn); theorems
  about the row created under it assume that it is fresh, as a drawn UUID is.
\<close>

record ledger =
  materials :: "string \<rightharpoonup> material"
  reservations :: "string \<rightharpoonup> reservation"
  movements :: "stock_movement list"

definition get_by_id :: "ledger \<Rightarrow> string \<Rightarrow> material option" where
  "get_by_id s material_id = materials s material_id"

text \<open>
  \<^verbatim>\<open>SQLAlchemyMaterialRepository.update_quantity\<close>: clamps the new quantity at zero,
  appends a stock movement carrying the requested delta, and returns the entity
  (\<^verbatim>\<open>None\<close> for an unknown id). The column \<^verbatim>\<open>reserved\<close> is not written.
\<close>

definition update_quantity ::
  "ledger \<Rightarrow> string \<Rightarrow> int \<Rightarrow> string \<Rightarrow> string option \<Rightarrow> string \<Rightarrow> ledger \<times> material option" where
  "update_quantity s material_id delta reason reference_id new_uuid =
     (case materials s material_id of
        None \<Rightarrow> (s, None)
      | Some model \<Rightarrow>
          let model' = model\<lparr>m_quantity := max 0 (m_quantity model + delta)\<rparr>;
              movement = \<lparr>sm_id = new_uuid, sm_material_id = material_id,
                          sm_quantity_delta = delta, sm_reason = reason,
                          sm_reference_id = reference_id\<rparr>
          in (s\<lparr>materials := (materials s)(material_id \<mapsto> model'),
                 movements := movements s @ [movement]\<rparr>,
              Some model'))"

text \<open>
  \<^verbatim>\<open>SQLAlchemyMaterialRepository.reserve\<close>: the check is on the raw difference
  \<^verbatim>\<open>model.quantity - model.reserved\<close> (not clamped at zero). Returns the new
  reservation id, or \<^verbatim>\<open>None\<close>.
\<close>

definition reserve :: "ledger \<Rightarrow> string \<Rightarrow> int \<Rightarrow> string \<Rightarrow> string \<Rightarrow> ledger \<times> string option" where
  "reserve s material_id quantity request_id new_uuid =
     (case materials s material_id of
        None \<Rightarrow> (s, None)
      | Some model \<Rightarrow>
          if m_quantity model - m_reserved model < quantity then (s, None)
          else
            (s\<lparr>materials := (materials s)(material_id \<mapsto>
                    model\<lparr>m_reserved := m_reserved model + quantity\<rparr>),
               reservations := (reservations s)(new_uuid \<mapsto>
                    \<lparr>rs_material_id = material_id, rs_request_id = request_id,
                     rs_quantity = quantity, rs_status = ''ACTIVE''\<rparr>)\<rparr>,
             Some new_uuid))"

text \<open>
  \<^verbatim>\<open>SQLAlchemyMaterialRepository.release_reservation\<close>: one \<^verbatim>\<open>False\<close> for an unknown
  reservation and for one that is not \<^verbatim>\<open>"ACTIVE"\<close>; otherwise the material's
  \<^verbatim>\<open>reserved\<close> becomes \<^verbatim>\<open>max(0, reserved - quantity)\<close> when the material row exists,
  and the reservation becomes \<^verbatim>\<open>"CANCELLED"\<close> in either case.
\<close>

definition release_reservation :: "ledger \<Rightarrow> string \<Rightarrow> ledger \<times> bool" where
  "release_reservation s reservation_id =
     (case reservations s reservation_id of
        None \<Rightarrow> (s, False)
      | Some r \<Rightarrow>
          if rs_status r \<noteq> ''ACTIVE'' then (s, False)
          else
            let mats = (case materials s (rs_material_id r) of
                          None \<Rightarrow> materials s
                        | Some mat \<Rightarrow> (materials s)(rs_material_id r \<mapsto>
                            mat\<lparr>m_reserved := max 0 (m_reserved mat - rs_quantity r)\<rparr>))
            in (s\<lparr>materials := mats,
                   reservations := (reservations s)(reservation_id \<mapsto>
                       r\<lparr>rs_status := ''CANCELLED''\<rparr>)\<rparr>,
                True))"

subsection \<open>Sequences of ledger operations\<close>

datatype ledger_op =
  OpReserve string int string string
| OpRelease string
| OpUpdateQuantity string int string "string option" string

fun ledger_step :: "ledger \<Rightarrow> ledger_op \<Rightarrow> ledger" where
  "ledger_step s (OpReserve material_id quantity request_id new_uuid) =
     fst (reserve s material_id quantity request_id new_uuid)"
| "ledger_step s (OpRelease reservation_id) = fst (release_reservation s reservation_id)"
| "ledger_step s (OpUpdateQuantity material_id delta reason reference_id new_uuid) =
     fst (update_quantity s material_id delta reason reference_id new_uuid)"

text \<open>The states reached after each operation of a sequence, in order.\<close>

fun ledger_states :: "ledger \<Rightarrow> ledger_op list \<Rightarrow> ledger list" where
  "ledger_states s [] = []"
| "ledger_states s (op # ops) = ledger_step s op # ledger_states (ledger_step s op) ops"

text \<open>The invariant of the specification: \<open>0 \<le> reserved \<le> quantity\<close> for every material.\<close>

definition ledger_invariant :: "ledger \<Rightarrow> bool" where
  "ledger_invariant s \<longleftrightarrow>
     (\<forall>mid m. materials s mid = Some m \<longrightarrow>
        0 \<le> m_reserved m \<and> m_reserved m \<le> m_quantity m \<and> 0 \<le> m_quantity m)"

definition quantity_nonneg :: "ledger \<Rightarrow> bool" where
  "quantity_nonneg s \<longleftrightarrow> (\<forall>mid m. materials s mid = Some m \<longrightarrow> 0 \<le> m_quantity m)"

text \<open>
  The operations that keep the invariant, by what they find in the state they run in:
  a reserve that is refused, or accepted with \<open>reserved + requested \<ge> 0\<close>; a release
  that is refused, or finds no material row, or has
  \<open>reserved - reservation quantity \<le> quantity\<close>; an update of the quantity of an
  unknown material, or with \<open>reserved \<le> max(0, quantity + delta)\<close>.
\<close>

fun op_admissible :: "ledger \<Rightarrow> ledger_op \<Rightarrow> bool" where
  "op_admissible s (OpReserve material_id quantity request_id new_uuid) =
     (case materials s material_id of
        None \<Rightarrow> True
      | Some m \<Rightarrow> quantity \<le> m_quantity m - m_reserved m \<longrightarrow> 0 \<le> m_reserved m + quantity)"
| "op_admissible s (OpRelease reservation_id) =
     (case reservations s reservation_id of
        None \<Rightarrow> True
      | Some r \<Rightarrow>
          rs_status r = ''ACTIVE'' \<longrightarrow>
          (case materials s (rs_material_id r) of
             None \<Rightarrow> True
           | Some m \<Rightarrow> m_reserved m - rs_quantity r \<le> m_quantity m))"
| "op_admissible s (OpUpdateQuantity material_id delta reason reference_id new_uuid) =
     (case materials s material_id of
        None \<Rightarrow> True
      | Some m \<Rightarrow> m_reserved m \<le> max 0 (m_quantity m + delta))"

fun ops_admissible :: "ledger \<Rightarrow> ledger_op list \<Rightarrow> bool" where
  "ops_admissible s [] = True"
| "ops_admissible s (op # ops) = (op_admissible s op \<and> ops_admissible (ledger_step s op) ops)"

text \<open>A ledger holding one material, used in the concrete runs below.\<close>

definition sand :: "int \<Rightarrow> int \<Rightarrow> material" where
  "sand q r = \<lparr>m_id = ''m1'', m_name = ''sand'', m_unit = CUBIC_METERS,
               m_category = ''bulk'', m_quantity = q, m_reserved = r, m_min_threshold = 20\<rparr>"

definition sand_ledger :: "int \<Rightarrow> int \<Rightarrow> ledger" where
  "sand_ledger q r =
     \<lparr>materials = [''m1'' \<mapsto> sand q r], reservations = Map.empty, movements = []\<rparr>"

definition sample_ops :: "ledger_op list" where
  "sample_ops = [OpReserve ''m1'' 90 ''req1'' ''r1'',
                 OpUpdateQuantity ''m1'' (- 10) ''CONSUMPTION'' None ''mv1'',
                 OpRelease ''r1'']"

text \<open>
  Three single breaches of the invariant: an update that takes the quantity below what
  is reserved, a reserve of a negative quantity, and the release of a reservation of
  negative quantity after two operations that kept the invariant.
\<close>

definition overdraw_ops :: "ledger_op list" where
  "overdraw_ops = [OpUpdateQuantity ''m1'' (- 50) ''CONSUMPTION'' None ''mv1'']"

definition negative_reserve_ops :: "ledger_op list" where
  "negative_reserve_ops = [OpReserve ''m1'' (- 5) ''req1'' ''ra'']"

definition negative_release_ops :: "ledger_op list" where
  "negative_release_ops =
     [OpReserve ''m1'' (- 5) ''req1'' ''ra'', OpReserve ''m1'' 5 ''req2'' ''rb'',
      OpRelease ''ra'']"

definition clearing_ops :: "ledger_op list" where
  "clearing_ops = [OpUpdateQuantity ''m1'' (- 200) ''CONSUMPTION'' None ''mv1'']"

section \<open>Inventory service: use cases\<close>

text \<open>
  Python exceptions are values. \<open>ValueError\<close> carries the text interpolated into its
  message (the unknown material id, or the rejected status string); \<open>PublishError\<close>
  stands for any \<^verbatim>\<open>Exception\<close> raised by a message publisher.
\<close>

datatype exn = ValueError string | PublishError string

subsection \<open>ReserveMaterialUseCase\<close>

record ReserveMaterialDTO =
  rd_material_id :: string
  rd_quantity :: int
  rd_request_id :: string

text \<open>
  The three error messages of the use case, with the values formatted into them:
  \<^verbatim>\<open>"Material with ID '...' not found"\<close>,
  \<^verbatim>\<open>"Insufficient quantity. Available: ..., Requested: ..."\<close> and
  \<^verbatim>\<open>"Failed to create reservation"\<close>.
\<close>

datatype reservation_error =
  MaterialNotFound string
| InsufficientQuantity int int
| FailedToCreateReservation

record ReservationResultDTO =
  rr_success :: bool
  rr_reservation_id :: "string option"
  rr_reserved_quantity :: int
  rr_error_message :: "reservation_error option"

definition reservation_failure :: "reservation_error \<Rightarrow> ReservationResultDTO" where
  "reservation_failure e =
     \<lparr>rr_success = False, rr_reservation_id = None, rr_reserved_quantity = 0,
      rr_error_message = Some e\<rparr>"

text \<open>
  \<^verbatim>\<open>ReserveMaterialUseCase.execute\<close>: the first check uses the clamped
  \<^verbatim>\<open>material.available\<close>, then the repository checks the raw difference again.
  \<^verbatim>\<open>if reservation_id:\<close> is Python truthiness: \<^verbatim>\<open>None\<close> and the empty string are
  false.
\<close>

definition ReserveMaterialUseCase_execute ::
  "ledger \<Rightarrow> ReserveMaterialDTO \<Rightarrow> string \<Rightarrow> ledger \<times> ReservationResultDTO" where
  "ReserveMaterialUseCase_execute s dto new_uuid =
     (case get_by_id s (rd_material_id dto) of
        None \<Rightarrow> (s, reservation_failure (MaterialNotFound (rd_material_id dto)))
      | Some material \<Rightarrow>
          if \<not> can_reserve material (rd_quantity dto)
          then (s, reservation_failure
                     (InsufficientQuantity (available material) (rd_quantity dto)))
          else
            (case reserve s (rd_material_id dto) (rd_quantity dto) (rd_request_id dto) new_uuid of
               (s', Some reservation_id) \<Rightarrow>
                 if reservation_id \<noteq> []
                 then (s', \<lparr>rr_success = True, rr_reservation_id = Some reservation_id,
                            rr_reserved_quantity = rd_quantity dto, rr_error_message = None\<rparr>)
                 else (s', reservation_failure FailedToCreateReservation)
             | (s', None) \<Rightarrow> (s', reservation_failure FailedToCreateReservation)))"

subsection \<open>CheckAvailabilityUseCase and the message publisher port\<close>

record AvailabilityCheckDTO =
  ac_material_id :: string
  ac_requested_quantity :: int

record AvailabilityResultDTO =
  ar_material_id :: string
  ar_material_name :: string
  ar_is_available :: bool
  ar_available_quantity :: int
  ar_requested_quantity :: int
  ar_shortage :: int

record MaterialShortageEventDTO =
  ev_material_id :: string
  ev_material_name :: string
  ev_current_quantity :: int
  ev_requested_quantity :: int
  ev_shortage :: int
  ev_triggered_by_request_id :: "string option"
  ev_timestamp :: string

text \<open>One call of \<^verbatim>\<open>MessagePublisher.publish(exchange, routing_key, message)\<close>.\<close>

record publish_call =
  pc_exchange :: string
  pc_routing_key :: string
  pc_message :: MaterialShortageEventDTO

text \<open>
  The port \<^verbatim>\<open>MessagePublisher.publish\<close> is abstract. A publisher is what one call
  of it does: it raises (\<open>Inl\<close>) or returns its boolean (\<open>Inr\<close>).
\<close>

type_synonym MessagePublisher = "publish_call \<Rightarrow> exn + bool"

text \<open>
  \<^verbatim>\<open>CheckAvailabilityUseCase.execute\<close>. The result is the exception raised or the DTO
  returned, together with the calls made to the publisher. The value returned by
  \<^verbatim>\<open>publish\<close> is discarded; the call is not wrapped in \<^verbatim>\<open>try\<close>. The argument
  \<open>now\<close> is \<^verbatim>\<open>datetime.utcnow().isoformat()\<close>. The two DTOs the method builds and
  the arguments of its call to \<^verbatim>\<open>publish\<close> are the three definitions before it.
\<close>

definition availability_result :: "material \<Rightarrow> AvailabilityCheckDTO \<Rightarrow> AvailabilityResultDTO" where
  "availability_result material dto =
     \<lparr>ar_material_id = m_id material, ar_material_name = m_name material,
      ar_is_available = (available material \<ge> ac_requested_quantity dto),
      ar_available_quantity = available material,
      ar_requested_quantity = ac_requested_quantity dto,
      ar_shortage = max 0 (ac_requested_quantity dto - available material)\<rparr>"

definition shortage_event ::
  "material \<Rightarrow> AvailabilityCheckDTO \<Rightarrow> string option \<Rightarrow> string \<Rightarrow> MaterialShortageEventDTO" where
  "shortage_event material dto request_id now =
     \<lparr>ev_material_id = m_id material, ev_material_name = m_name material,
      ev_current_quantity = available material,
      ev_requested_quantity = ac_requested_quantity dto,
      ev_shortage = max 0 (ac_requested_quantity dto - available material),
      ev_triggered_by_request_id = request_id,
      ev_timestamp = now\<rparr>"

definition shortage_call ::
  "material \<Rightarrow> AvailabilityCheckDTO \<Rightarrow> string option \<Rightarrow> string \<Rightarrow> publish_call" where
  "shortage_call material dto request_id now =
     \<lparr>pc_exchange = ''materials.events'', pc_routing_key = ''material.shortage'',
      pc_message = shortage_event material dto request_id now\<rparr>"

definition CheckAvailabilityUseCase_execute ::
  "ledger \<Rightarrow> MessagePublisher option \<Rightarrow> AvailabilityCheckDTO \<Rightarrow> string option \<Rightarrow> bool \<Rightarrow> string
     \<Rightarrow> (exn + AvailabilityResultDTO) \<times> publish_call list" where
  "CheckAvailabilityUseCase_execute s message_publisher dto request_id publish_shortage now =
     (case get_by_id s (ac_material_id dto) of
        None \<Rightarrow> (Inl (ValueError (ac_material_id dto)), [])
      | Some material \<Rightarrow>
          let shortage = max 0 (ac_requested_quantity dto - available material);
              result = availability_result material dto
          in if shortage > 0 \<and> publish_shortage then
               (case message_publisher of
                  None \<Rightarrow> (Inr result, [])
                | Some publisher \<Rightarrow>
                    let call = shortage_call material dto request_id now
                    in (case publisher call of
                          Inl e \<Rightarrow> (Inl e, [call])
                        | Inr published \<Rightarrow> (Inr result, [call])))
             else (Inr result, []))"

subsection \<open>The two publishers of the repository\<close>

datatype log_record = LogError string | LogInfo string

fun exn_text :: "exn \<Rightarrow> string" where
  "exn_text (ValueError msg) = msg"
| "exn_text (PublishError msg) = msg"

text \<open>
  \<^verbatim>\<open>RabbitMQPublisher\<close>: \<open>rmq_channel\<close> says whether \<^verbatim>\<open>self.channel\<close> is set, and
  \<open>rmq_broker\<close> is what the body of the \<^verbatim>\<open>try\<close> block does for a call (declaring the
  exchange, serialising, publishing): \<open>None\<close> when it completes, \<open>Some e\<close> when it
  raises the \<^verbatim>\<open>Exception\<close> \<open>e\<close>.
\<close>

record RabbitMQPublisher =
  rmq_channel :: bool
  rmq_broker :: "publish_call \<Rightarrow> exn option"

definition RabbitMQPublisher_publish ::
  "RabbitMQPublisher \<Rightarrow> publish_call \<Rightarrow> (exn + bool) \<times> log_record list" where
  "RabbitMQPublisher_publish self call =
     (if \<not> rmq_channel self then (Inr False, [LogError ''Not connected to RabbitMQ''])
      else
        (case rmq_broker self call of
           None \<Rightarrow>
             (Inr True,
              [LogInfo (''Published message to '' @ pc_exchange call @ ''/'' @ pc_routing_key call)])
         | Some e \<Rightarrow>
             (Inr False, [LogError (''Failed to publish message: '' @ exn_text e)])))"

text \<open>\<^verbatim>\<open>StubMessagePublisher.publish\<close> stores the message and returns \<^verbatim>\<open>True\<close>.\<close>

definition StubMessagePublisher_publish ::
  "publish_call list \<Rightarrow> publish_call \<Rightarrow> (exn + bool) \<times> publish_call list" where
  "StubMessagePublisher_publish messages call = (Inr True, messages @ [call])"

definition rabbitmq_publisher :: "RabbitMQPublisher \<Rightarrow> MessagePublisher" where
  "rabbitmq_publisher self = (\<lambda>call. fst (RabbitMQPublisher_publish self call))"

definition stub_publisher :: MessagePublisher where
  "stub_publisher = (\<lambda>call. fst (StubMessagePublisher_publish [] call))"

text \<open>A publisher whose \<^verbatim>\<open>publish\<close> raises on every call.\<close>

definition raising_publisher :: MessagePublisher where
  "raising_publisher = (\<lambda>call. Inl (PublishError ''connection reset''))"

definition sand_check :: AvailabilityCheckDTO where
  "sand_check = \<lparr>ac_material_id = ''m1'', ac_requested_quantity = 50\<rparr>"

section \<open>Procurement service: domain entities\<close>

text \<open>
  The entities of \<^verbatim>\<open>procurement-service/src/domain/entities/procurement.py\<close>.
  A \<^verbatim>\<open>Decimal\<close> price is a rational number (products with an integer quantity are
  exact within the decimal context's precision). A supplier's \<^verbatim>\<open>rating\<close> is a float
  that the code only negates and compares; both are exact on finite floats, so the
  rating is the rational it denotes. A \<^verbatim>\<open>datetime\<close> is a point on a discrete clock.
  As in the inventory service, \<^verbatim>\<open>created_at\<close> and \<^verbatim>\<open>updated_at\<close> are left out.
\<close>

type_synonym datetime = nat

datatype OrderStatus = PENDING | ORDERED | DELIVERED | CANCELLED

record Supplier =
  s_id :: string
  s_name :: string
  s_email :: string
  s_phone :: string
  s_rating :: rat
  s_is_active :: bool

record SupplierMaterial =
  off_id :: string
  off_supplier_id :: string
  off_material_id :: string
  off_material_name :: string
  off_unit_price :: rat

record PurchaseOrder =
  po_id :: string
  po_material_id :: string
  po_material_name :: string
  po_supplier_id :: string
  po_supplier_name :: string
  po_quantity :: int
  po_unit_price :: rat
  po_total_price :: rat
  po_status :: OrderStatus
  po_external_order_id :: "string option"
  po_triggered_by_request_id :: "string option"
  po_expected_delivery :: "datetime option"

definition calculate_total :: "PurchaseOrder \<Rightarrow> PurchaseOrder" where
  "calculate_total order = order\<lparr>po_total_price := po_unit_price order * of_int (po_quantity order)\<rparr>"

definition mark_as_ordered :: "PurchaseOrder \<Rightarrow> string \<Rightarrow> datetime \<Rightarrow> PurchaseOrder" where
  "mark_as_ordered order external_order_id expected_delivery =
     order\<lparr>po_status := ORDERED,
           po_external_order_id := Some external_order_id,
           po_expected_delivery := Some expected_delivery\<rparr>"

definition mark_as_delivered :: "PurchaseOrder \<Rightarrow> PurchaseOrder" where
  "mark_as_delivered order = order\<lparr>po_status := DELIVERED\<rparr>"

definition cancel :: "PurchaseOrder \<Rightarrow> PurchaseOrder" where
  "cancel order = order\<lparr>po_status := CANCELLED\<rparr>"

record OrderConfirmation =
  oc_order_id :: string
  oc_external_order_id :: string
  oc_status :: string
  oc_estimated_delivery :: "datetime option"
  oc_error_message :: "string option"

definition is_success :: "OrderConfirmation \<Rightarrow> bool" where
  "is_success c \<longleftrightarrow> oc_status c \<in> set [''CONFIRMED'', ''ACCEPTED'', ''SUCCESS'']"

section \<open>Procurement service: use cases\<close>

subsection \<open>SupplierSelector\<close>

text \<open>
  \<^verbatim>\<open>next((m for m in materials if m.material_id == material_id), None)\<close>: the first
  offer of the list for the material.
\<close>

definition material_info_for :: "string \<Rightarrow> SupplierMaterial list \<Rightarrow> SupplierMaterial option" where
  "material_info_for material_id materials_list =
     find (\<lambda>m. off_material_id m = material_id) materials_list"

text \<open>
  The loop that collects the candidates: inactive suppliers are skipped, the offers of a
  supplier are \<^verbatim>\<open>supplier_materials.get(supplier.id, [])\<close>.
\<close>

fun collect_candidates ::
  "string \<Rightarrow> Supplier list \<Rightarrow> (string \<rightharpoonup> SupplierMaterial list)
     \<Rightarrow> (Supplier \<times> SupplierMaterial) list" where
  "collect_candidates material_id [] supplier_materials = []"
| "collect_candidates material_id (supplier # rest) supplier_materials =
     (if \<not> s_is_active supplier then collect_candidates material_id rest supplier_materials
      else
        (case material_info_for material_id
                (case supplier_materials (s_id supplier) of None \<Rightarrow> [] | Some ms \<Rightarrow> ms) of
           None \<Rightarrow> collect_candidates material_id rest supplier_materials
         | Some material_info \<Rightarrow>
             (supplier, material_info) # collect_candidates material_id rest supplier_materials))"

text \<open>
  The sort key \<^verbatim>\<open>lambda x: (-x[0].rating, x[1].unit_price)\<close>; Python compares the
  tuples lexicographically, as the order on pairs does here. \<^verbatim>\<open>list.sort\<close> is stable,
  and so is \<^const>\<open>sort_key\<close>.
\<close>

definition candidate_key :: "Supplier \<times> SupplierMaterial \<Rightarrow> rat \<times> rat" where
  "candidate_key x = (- s_rating (fst x), off_unit_price (snd x))"

definition select_best_supplier ::
  "string \<Rightarrow> Supplier list \<Rightarrow> (string \<rightharpoonup> SupplierMaterial list)
     \<Rightarrow> (Supplier \<times> SupplierMaterial) option" where
  "select_best_supplier material_id suppliers supplier_materials =
     (let candidates = collect_candidates material_id suppliers supplier_materials
      in if candidates = [] then None
         else Some (hd (sort_key candidate_key candidates)))"

subsection \<open>Collaborators of the order use cases\<close>

text \<open>
  \<^verbatim>\<open>SupplierRepository\<close> is abstract; the use case calls two of its methods, which
  read only. \<^verbatim>\<open>SupplierAdapter.place_order\<close> is abstract as well: an adapter is the
  confirmation it returns for a supplier and an order.
\<close>

record SupplierRepository =
  get_for_material :: "string \<Rightarrow> Supplier list"
  get_materials :: "string \<Rightarrow> SupplierMaterial list"

type_synonym SupplierAdapter = "Supplier \<Rightarrow> PurchaseOrder \<Rightarrow> OrderConfirmation"

text \<open>
  Modelled from the spec: \<^verbatim>\<open>PurchaseOrderRepository\<close> has no implementation in the
  sources (only the abstract class). The purchase orders are the persisted rows, each
  found by its \<^verbatim>\<open>id\<close>; \<^verbatim>\<open>save\<close> writes the row of that id (replacing it if
  present), \<^verbatim>\<open>update\<close> replaces the row of that id.
\<close>

type_synonym order_store = "PurchaseOrder list"

definition order_get_by_id :: "order_store \<Rightarrow> string \<Rightarrow> PurchaseOrder option" where
  "order_get_by_id store order_id = find (\<lambda>row. po_id row = order_id) store"

definition order_update :: "order_store \<Rightarrow> PurchaseOrder \<Rightarrow> order_store" where
  "order_update store order = map (\<lambda>row. if po_id row = po_id order then order else row) store"

definition order_save :: "order_store \<Rightarrow> PurchaseOrder \<Rightarrow> order_store" where
  "order_save store order =
     (if order_get_by_id store (po_id order) = None then store @ [order]
      else order_update store order)"

subsection \<open>ProcessShortageUseCase\<close>

record ProcessShortageDTO =
  ps_material_id :: string
  ps_material_name :: string
  ps_shortage_quantity :: int
  ps_triggered_by_request_id :: "string option"

record ProcessShortageResultDTO =
  pr_success :: bool
  pr_order_id :: "string option"
  pr_message :: string
  pr_supplier_name :: "string option"
  pr_estimated_cost :: "rat option"

text \<open>An optional string inside an f-string: \<^verbatim>\<open>None\<close> prints as \<^verbatim>\<open>None\<close>.\<close>

definition format_optional :: "string option \<Rightarrow> string" where
  "format_optional x = (case x of None \<Rightarrow> ''None'' | Some text \<Rightarrow> text)"

text \<open>
  Step 2 of the use case: the dictionary from each supplier's id to the offers the
  repository returns for it.
\<close>

definition collect_supplier_materials ::
  "SupplierRepository \<Rightarrow> Supplier list \<Rightarrow> (string \<rightharpoonup> SupplierMaterial list)" where
  "collect_supplier_materials supplier_repo suppliers =
     fold (\<lambda>supplier d. d(s_id supplier \<mapsto> get_materials supplier_repo (s_id supplier)))
       suppliers Map.empty"

text \<open>Step 4: the order as constructed (status \<^verbatim>\<open>PENDING\<close> by default), total computed.\<close>

definition new_order ::
  "ProcessShortageDTO \<Rightarrow> Supplier \<Rightarrow> SupplierMaterial \<Rightarrow> string \<Rightarrow> PurchaseOrder" where
  "new_order dto supplier material_info new_uuid =
     calculate_total
       \<lparr>po_id = new_uuid, po_material_id = ps_material_id dto,
        po_material_name = ps_material_name dto, po_supplier_id = s_id supplier,
        po_supplier_name = s_name supplier, po_quantity = ps_shortage_quantity dto,
        po_unit_price = off_unit_price material_info, po_total_price = 0,
        po_status = PENDING, po_external_order_id = None,
        po_triggered_by_request_id = ps_triggered_by_request_id dto,
        po_expected_delivery = None\<rparr>"

text \<open>
  \<^verbatim>\<open>ProcessShortageUseCase.execute\<close>. \<open>new_uuid\<close> is \<^verbatim>\<open>str(uuid.uuid4())\<close> and \<open>now\<close>
  is \<^verbatim>\<open>datetime.utcnow()\<close>. The notification of step 7 calls a method whose body is
  \<^verbatim>\<open>pass\<close> inside a \<^verbatim>\<open>try\<close>; it has no effect and is left out, as is logging.
\<close>

definition ProcessShortageUseCase_execute ::
  "order_store \<Rightarrow> SupplierRepository \<Rightarrow> SupplierAdapter \<Rightarrow> ProcessShortageDTO \<Rightarrow> string \<Rightarrow> datetime
     \<Rightarrow> order_store \<times> ProcessShortageResultDTO" where
  "ProcessShortageUseCase_execute store supplier_repo supplier_adapter dto new_uuid now =
     (let suppliers = get_for_material supplier_repo (ps_material_id dto) in
      if suppliers = [] then
        (store, \<lparr>pr_success = False, pr_order_id = None,
                 pr_message = ''No suppliers found for material '' @ ps_material_name dto,
                 pr_supplier_name = None, pr_estimated_cost = None\<rparr>)
      else
        (case select_best_supplier (ps_material_id dto) suppliers
                (collect_supplier_materials supplier_repo suppliers) of
           None \<Rightarrow>
             (store, \<lparr>pr_success = False, pr_order_id = None,
                      pr_message = ''No active supplier can provide '' @ ps_material_name dto,
                      pr_supplier_name = None, pr_estimated_cost = None\<rparr>)
         | Some (supplier, material_info) \<Rightarrow>
             let order = new_order dto supplier material_info new_uuid;
                 confirmation = supplier_adapter supplier order
             in if \<not> is_success confirmation then
                  (order_save store (order\<lparr>po_status := CANCELLED\<rparr>),
                   \<lparr>pr_success = False, pr_order_id = Some (po_id order),
                    pr_message = ''Supplier rejected order: ''
                                   @ format_optional (oc_error_message confirmation),
                    pr_supplier_name = Some (s_name supplier), pr_estimated_cost = None\<rparr>)
                else
                  let order' = mark_as_ordered order (oc_external_order_id confirmation)
                                 (case oc_estimated_delivery confirmation of
                                    Some d \<Rightarrow> d | None \<Rightarrow> now)
                  in (order_save store order',
                      \<lparr>pr_success = True, pr_order_id = Some (po_id order'),
                       pr_message = ''Order placed with '' @ s_name supplier,
                       pr_supplier_name = Some (s_name supplier),
                       pr_estimated_cost = Some (po_total_price order')\<rparr>)))"

subsection \<open>UpdateOrderStatusUseCase\<close>

record OrderDTO =
  od_id :: string
  od_material_id :: string
  od_material_name :: string
  od_supplier_id :: string
  od_supplier_name :: string
  od_quantity :: int
  od_unit_price :: rat
  od_total_price :: rat
  od_status :: string
  od_external_order_id :: "string option"
  od_triggered_by_request_id :: "string option"
  od_expected_delivery :: "datetime option"

fun status_value :: "OrderStatus \<Rightarrow> string" where
  "status_value PENDING = ''PENDING''"
| "status_value ORDERED = ''ORDERED''"
| "status_value DELIVERED = ''DELIVERED''"
| "status_value CANCELLED = ''CANCELLED''"

text \<open>\<^verbatim>\<open>OrderStatus(new_status)\<close>: the member of that value, or a \<^verbatim>\<open>ValueError\<close>.\<close>

definition OrderStatus_of :: "string \<Rightarrow> exn + OrderStatus" where
  "OrderStatus_of v =
     (if v = ''PENDING'' then Inr PENDING
      else if v = ''ORDERED'' then Inr ORDERED
      else if v = ''DELIVERED'' then Inr DELIVERED
      else if v = ''CANCELLED'' then Inr CANCELLED
      else Inl (ValueError v))"

definition order_to_dto :: "PurchaseOrder \<Rightarrow> OrderDTO" where
  "order_to_dto order =
     \<lparr>od_id = po_id order, od_material_id = po_material_id order,
      od_material_name = po_material_name order, od_supplier_id = po_supplier_id order,
      od_supplier_name = po_supplier_name order, od_quantity = po_quantity order,
      od_unit_price = po_unit_price order, od_total_price = po_total_price order,
      od_status = status_value (po_status order),
      od_external_order_id = po_external_order_id order,
      od_triggered_by_request_id = po_triggered_by_request_id order,
      od_expected_delivery = po_expected_delivery order\<rparr>"

text \<open>
  What the use case can reach: its order repository, and the ledger of the inventory
  service behind \<^verbatim>\<open>inventory_client\<close>.
\<close>

record procurement_world =
  orders :: order_store
  inventory :: ledger

text \<open>
  \<^verbatim>\<open>UpdateOrderStatusUseCase._update_inventory\<close>: the body is \<^verbatim>\<open>pass\<close> under the
  docstring "Update inventory when order is delivered." It makes no call, so the ledger
  it is given is the ledger it leaves.
\<close>

definition update_inventory :: "ledger \<Rightarrow> PurchaseOrder \<Rightarrow> ledger" where
  "update_inventory l order = l"

text \<open>
  \<^verbatim>\<open>UpdateOrderStatusUseCase.execute\<close>; \<open>inventory_client\<close> says whether a client was
  configured. No branch looks at the order's current status before it sets the new one.
\<close>

definition UpdateOrderStatusUseCase_execute ::
  "procurement_world \<Rightarrow> bool \<Rightarrow> string \<Rightarrow> string \<Rightarrow> procurement_world \<times> (exn + OrderDTO option)" where
  "UpdateOrderStatusUseCase_execute w inventory_client order_id new_status =
     (case order_get_by_id (orders w) order_id of
        None \<Rightarrow> (w, Inr None)
      | Some order \<Rightarrow>
          if new_status = ''DELIVERED'' then
            let order' = mark_as_delivered order;
                inv = (if inventory_client then update_inventory (inventory w) order'
                       else inventory w)
            in (\<lparr>orders = order_update (orders w) order', inventory = inv\<rparr>,
                Inr (Some (order_to_dto order')))
          else if new_status = ''CANCELLED'' then
            let order' = cancel order
            in (w\<lparr>orders := order_update (orders w) order'\<rparr>, Inr (Some (order_to_dto order')))
          else
            (case OrderStatus_of new_status of
               Inl e \<Rightarrow> (w, Inl e)
             | Inr st \<Rightarrow>
                 let order' = order\<lparr>po_status := st\<rparr>
                 in (w\<lparr>orders := order_update (orders w) order'\<rparr>,
                     Inr (Some (order_to_dto order')))))"

subsection \<open>Concrete data for the runs below\<close>

definition supplier_of :: "string \<Rightarrow> rat \<Rightarrow> bool \<Rightarrow> Supplier" where
  "supplier_of i rating active =
     \<lparr>s_id = i, s_name = i, s_email = '''', s_phone = '''', s_rating = rating,
      s_is_active = active\<rparr>"

definition offer_of :: "string \<Rightarrow> string \<Rightarrow> rat \<Rightarrow> SupplierMaterial" where
  "offer_of supplier_id material_id price =
     \<lparr>off_id = supplier_id @ ''-'' @ material_id, off_supplier_id = supplier_id,
      off_material_id = material_id, off_material_name = '''', off_unit_price = price\<rparr>"

definition three_suppliers :: "Supplier list" where
  "three_suppliers =
     [supplier_of ''A'' (9 / 2) True, supplier_of ''B'' (24 / 5) True,
      supplier_of ''C'' (24 / 5) True]"

definition three_offers :: "string \<rightharpoonup> SupplierMaterial list" where
  "three_offers =
     [''A'' \<mapsto> [offer_of ''A'' ''m1'' 120],
      ''B'' \<mapsto> [offer_of ''B'' ''m1'' 130],
      ''C'' \<mapsto> [offer_of ''C'' ''m1'' 125]]"

definition sample_order :: "OrderStatus \<Rightarrow> PurchaseOrder" where
  "sample_order st =
     \<lparr>po_id = ''o1'', po_material_id = ''m1'', po_material_name = ''sand'',
      po_supplier_id = ''C'', po_supplier_name = ''C'', po_quantity = 40,
      po_unit_price = 125, po_total_price = 5000, po_status = st,
      po_external_order_id = Some ''STUB-1'', po_triggered_by_request_id = None,
      po_expected_delivery = Some 7\<rparr>"

definition sample_world :: "OrderStatus \<Rightarrow> procurement_world" where
  "sample_world st = \<lparr>orders = [sample_order st], inventory = sand_ledger 100 90\<rparr>"

text \<open>Ledgers reached from the one-material ledger by the operations named.\<close>

definition reserved_ledger :: ledger where
  "reserved_ledger = ledger_step (sand_ledger 100 0) (OpReserve ''m1'' 90 ''req1'' ''r1'')"

definition released_ledger :: ledger where
  "released_ledger = ledger_step reserved_ledger (OpRelease ''r1'')"

definition overdrawn_ledger :: ledger where
  "overdrawn_ledger =
     ledger_step (sand_ledger 100 90)
       (OpUpdateQuantity ''m1'' (- 50) ''CONSUMPTION'' None ''mv1'')"

definition skewed_ledger :: ledger where
  "skewed_ledger =
     ledger_step (ledger_step (sand_ledger 100 0) (OpReserve ''m1'' 10 ''req1'' ''ra''))
       (OpReserve ''m1'' (- 5) ''req2'' ''rb'')"

definition reserve_request :: "int \<Rightarrow> ReserveMaterialDTO" where
  "reserve_request q = \<lparr>rd_material_id = ''m1'', rd_quantity = q, rd_request_id = ''req9''\<rparr>"

text \<open>A connected RabbitMQ publisher whose broker fails on every call.\<close>

definition broken_rabbitmq :: RabbitMQPublisher where
  "broken_rabbitmq =
     \<lparr>rmq_channel = True, rmq_broker = (\<lambda>call. Some (PublishError ''connection reset''))\<rparr>"

text \<open>
  What the supplier directory holds for a supplier
  (\<^verbatim>\<open>supplier_materials.get(supplier.id, [])\<close>), and what it means for an offer to be
  the first offer of a list for a material: it stands in the list, it is for that
  material, and no offer before it is.
\<close>

definition offers_of :: "(string \<rightharpoonup> SupplierMaterial list) \<Rightarrow> Supplier \<Rightarrow> SupplierMaterial list" where
  "offers_of supplier_materials supplier =
     (case supplier_materials (s_id supplier) of None \<Rightarrow> [] | Some ms \<Rightarrow> ms)"

definition first_offer_for :: "string \<Rightarrow> SupplierMaterial list \<Rightarrow> SupplierMaterial \<Rightarrow> bool" where
  "first_offer_for material_id offers off \<longleftrightarrow>
     (\<exists>before after. offers = before @ off # after \<and> off_material_id off = material_id \<and>
        (\<forall>x\<in>set before. off_material_id x \<noteq> material_id))"

text \<open>
  Two active suppliers: the lower-rated one lists an offer for bricks and then one for
  the material, the higher-rated one offers bricks only.
\<close>

definition two_suppliers :: "Supplier list" where
  "two_suppliers = [supplier_of ''A'' (9 / 2) True, supplier_of ''B'' (24 / 5) True]"

definition mixed_offers :: "string \<rightharpoonup> SupplierMaterial list" where
  "mixed_offers =
     [''A'' \<mapsto> [offer_of ''A'' ''bricks'' 50, offer_of ''A'' ''m1'' 120],
      ''B'' \<mapsto> [offer_of ''B'' ''bricks'' 60]]"

definition inactive_supplier :: "Supplier list" where
  "inactive_supplier = [supplier_of ''A'' 5 False]"

definition one_offer :: "string \<rightharpoonup> SupplierMaterial list" where
  "one_offer = [''A'' \<mapsto> [offer_of ''A'' ''m1'' 120]]"

text \<open>
  A supplier repository holding the three suppliers and their offers, a shortage of 40
  of the material, an adapter that confirms every order (with the delivery estimate
  given) and one that answers as the stub adapter does when it simulates a failure.
\<close>

definition sample_repo :: SupplierRepository where
  "sample_repo =
     \<lparr>get_for_material = (\<lambda>material_id. if material_id = ''m1'' then three_suppliers else []),
      get_materials = (\<lambda>supplier_id. case three_offers supplier_id of
                                        None \<Rightarrow> [] | Some ms \<Rightarrow> ms)\<rparr>"

definition sample_shortage :: ProcessShortageDTO where
  "sample_shortage =
     \<lparr>ps_material_id = ''m1'', ps_material_name = ''sand'', ps_shortage_quantity = 40,
      ps_triggered_by_request_id = None\<rparr>"

definition confirming_adapter :: "datetime option \<Rightarrow> SupplierAdapter" where
  "confirming_adapter delivery =
     (\<lambda>supplier order.
        \<lparr>oc_order_id = po_id order, oc_external_order_id = ''STUB-1'',
         oc_status = ''CONFIRMED'', oc_estimated_delivery = delivery,
         oc_error_message = None\<rparr>)"

definition failing_adapter :: SupplierAdapter where
  "failing_adapter =
     (\<lambda>supplier order.
        \<lparr>oc_order_id = po_id order, oc_external_order_id = '''',
         oc_status = ''FAILED'', oc_estimated_delivery = None,
         oc_error_message = Some ''Simulated supplier error - please retry''\<rparr>)"

definition sample_new_order :: PurchaseOrder where
  "sample_new_order =
     new_order sample_shortage (supplier_of ''C'' (24 / 5) True) (offer_of ''C'' ''m1'' 125) ''o9''"

section \<open>Properties of the material ledger\<close>

subsection \<open>The quantity invariant along sequences of operations\<close>

lemma update_quantity_materials:
  "materials (fst (update_quantity s mid d rsn ref u)) =
     (case materials s mid of None \<Rightarrow> materials s
      | Some m \<Rightarrow> (materials s)(mid \<mapsto> m\<lparr>m_quantity := max 0 (m_quantity m + d)\<rparr>))"
  by (simp add: update_quantity_def Let_def split: option.splits)

lemma reserve_materials:
  "materials (fst (reserve s mid q req u)) =
     (case materials s mid of None \<Rightarrow> materials s
      | Some m \<Rightarrow>
          if m_quantity m - m_reserved m < q then materials s
          else (materials s)(mid \<mapsto> m\<lparr>m_reserved := m_reserved m + q\<rparr>))"
  by (simp add: reserve_def split: option.splits)

lemma release_materials:
  "materials (fst (release_reservation s rid)) =
     (case reservations s rid of None \<Rightarrow> materials s
      | Some r \<Rightarrow>
          if rs_status r \<noteq> ''ACTIVE'' then materials s
          else (case materials s (rs_material_id r) of None \<Rightarrow> materials s
                | Some m \<Rightarrow> (materials s)(rs_material_id r \<mapsto>
                    m\<lparr>m_reserved := max 0 (m_reserved m - rs_quantity r)\<rparr>)))"
  by (simp add: release_reservation_def Let_def split: option.splits)

text \<open>Writing one row keeps the invariant exactly when the new row satisfies it.\<close>

lemma ledger_invariant_row:
  assumes "ledger_invariant s" and "materials s' = (materials s)(mid \<mapsto> m')"
  shows "ledger_invariant s' \<longleftrightarrow>
           0 \<le> m_reserved m' \<and> m_reserved m' \<le> m_quantity m' \<and> 0 \<le> m_quantity m'"
proof
  assume "ledger_invariant s'"
  moreover have "materials s' mid = Some m'" using assms(2) by simp
  ultimately show "0 \<le> m_reserved m' \<and> m_reserved m' \<le> m_quantity m' \<and> 0 \<le> m_quantity m'"
    unfolding ledger_invariant_def by blast
next
  assume "0 \<le> m_reserved m' \<and> m_reserved m' \<le> m_quantity m' \<and> 0 \<le> m_quantity m'"
  with assms show "ledger_invariant s'"
    by (auto simp: ledger_invariant_def)
qed

lemma ledger_invariant_same_rows:
  "materials s' = materials s \<Longrightarrow> ledger_invariant s' = ledger_invariant s"
  by (simp add: ledger_invariant_def)

lemma ledger_invariantD:
  "ledger_invariant s \<Longrightarrow> materials s mid = Some m \<Longrightarrow>
   0 \<le> m_reserved m \<and> m_reserved m \<le> m_quantity m \<and> 0 \<le> m_quantity m"
  by (simp add: ledger_invariant_def)

lemma step_invariant_iff:
  assumes inv: "ledger_invariant s"
  shows "ledger_invariant (ledger_step s op) \<longleftrightarrow> op_admissible s op"
proof (cases op)
  case (OpReserve mid q req u)
  show ?thesis
  proof (cases "materials s mid")
    case None
    then have "materials (ledger_step s op) = materials s"
      by (simp add: OpReserve reserve_materials)
    then have "ledger_invariant (ledger_step s op) = ledger_invariant s"
      by (rule ledger_invariant_same_rows)
    with inv None show ?thesis
      by (simp add: OpReserve)
  next
    case (Some m)
    note row = ledger_invariantD [OF inv Some]
    show ?thesis
    proof (cases "m_quantity m - m_reserved m < q")
      case True
      then have "materials (ledger_step s op) = materials s"
        by (simp add: OpReserve reserve_materials Some)
      then have "ledger_invariant (ledger_step s op) = ledger_invariant s"
        by (rule ledger_invariant_same_rows)
      with inv Some True show ?thesis
        by (simp add: OpReserve)
    next
      case False
      then have "materials (ledger_step s op) =
                   (materials s)(mid \<mapsto> m\<lparr>m_reserved := m_reserved m + q\<rparr>)"
        by (simp add: OpReserve reserve_materials Some)
      from ledger_invariant_row [OF inv this] Some False row show ?thesis
        by (auto simp: OpReserve)
    qed
  qed
next
  case (OpRelease rid)
  show ?thesis
  proof (cases "reservations s rid")
    case None
    then have "materials (ledger_step s op) = materials s"
      by (simp add: OpRelease release_materials)
    then have "ledger_invariant (ledger_step s op) = ledger_invariant s"
      by (rule ledger_invariant_same_rows)
    with inv None show ?thesis
      by (simp add: OpRelease)
  next
    case (Some r)
    show ?thesis
    proof (cases "rs_status r = ''ACTIVE''")
      case False
      then have "materials (ledger_step s op) = materials s"
        by (simp add: OpRelease release_materials Some)
      then have "ledger_invariant (ledger_step s op) = ledger_invariant s"
        by (rule ledger_invariant_same_rows)
      with inv Some False show ?thesis
        by (simp add: OpRelease)
    next
      case True
      show ?thesis
      proof (cases "materials s (rs_material_id r)")
        case None
        then have "materials (ledger_step s op) = materials s"
          by (simp add: OpRelease release_materials Some True)
        then have "ledger_invariant (ledger_step s op) = ledger_invariant s"
          by (rule ledger_invariant_same_rows)
        with inv Some True None show ?thesis
          by (simp add: OpRelease)
      next
        case (Some m)
        note row = ledger_invariantD [OF inv Some]
        have "materials (ledger_step s op) =
                (materials s)(rs_material_id r \<mapsto>
                   m\<lparr>m_reserved := max 0 (m_reserved m - rs_quantity r)\<rparr>)"
          by (simp add: OpRelease release_materials \<open>reservations s rid = Some r\<close> True Some)
        from ledger_invariant_row [OF inv this] Some True row
          \<open>reservations s rid = Some r\<close>
        show ?thesis
          by (auto simp: OpRelease)
      qed
    qed
  qed
next
  case (OpUpdateQuantity mid d rsn ref u)
  show ?thesis
  proof (cases "materials s mid")
    case None
    then have "materials (ledger_step s op) = materials s"
      by (simp add: OpUpdateQuantity update_quantity_materials)
    then have "ledger_invariant (ledger_step s op) = ledger_invariant s"
      by (rule ledger_invariant_same_rows)
    with inv None show ?thesis
      by (simp add: OpUpdateQuantity)
  next
    case (Some m)
    note row = ledger_invariantD [OF inv Some]
    have "materials (ledger_step s op) =
            (materials s)(mid \<mapsto> m\<lparr>m_quantity := max 0 (m_quantity m + d)\<rparr>)"
      by (simp add: OpUpdateQuantity update_quantity_materials Some)
    from ledger_invariant_row [OF inv this] Some row show ?thesis
      by (auto simp: OpUpdateQuantity)
  qed
qed

lemma states_invariant_iff:
  "ledger_invariant s \<Longrightarrow>
   (\<forall>s'\<in>set (ledger_states s ops). ledger_invariant s') \<longleftrightarrow> ops_admissible s ops"
proof (induction ops arbitrary: s)
  case Nil
  then show ?case by simp
next
  case (Cons op ops)
  show ?case
  proof (cases "op_admissible s op")
    case True
    then have inv': "ledger_invariant (ledger_step s op)"
      using step_invariant_iff [OF Cons.prems] by simp
    from Cons.IH [OF inv'] True inv' show ?thesis by simp
  next
    case False
    then have "\<not> ledger_invariant (ledger_step s op)"
      using step_invariant_iff [OF Cons.prems] by simp
    with False show ?thesis by simp
  qed
qed

lemma step_quantity_nonneg: "quantity_nonneg s \<Longrightarrow> quantity_nonneg (ledger_step s op)"
proof (cases op)
  case (OpReserve mid q req u)
  assume "quantity_nonneg s"
  then show ?thesis
    by (auto simp: OpReserve quantity_nonneg_def reserve_materials split: option.splits if_splits)
next
  case (OpRelease rid)
  assume "quantity_nonneg s"
  then show ?thesis
    by (auto simp: OpRelease quantity_nonneg_def release_materials split: option.splits if_splits)
next
  case (OpUpdateQuantity mid d rsn ref u)
  assume "quantity_nonneg s"
  then show ?thesis
    by (auto simp: OpUpdateQuantity quantity_nonneg_def update_quantity_materials
          split: option.splits if_splits)
qed

lemma states_quantity_nonneg:
  "quantity_nonneg s \<Longrightarrow> s' \<in> set (ledger_states s ops) \<Longrightarrow> quantity_nonneg s'"
proof (induction ops arbitrary: s)
  case Nil
  then show ?case by simp
next
  case (Cons op ops)
  have q': "quantity_nonneg (ledger_step s op)"
    using Cons.prems(1) by (rule step_quantity_nonneg)
  from Cons.prems(2) consider "s' = ledger_step s op"
    | "s' \<in> set (ledger_states (ledger_step s op) ops)"
    by auto
  then show ?case
  proof cases
    case 1
    then show ?thesis using q' by simp
  next
    case 2
    then show ?thesis using Cons.IH [OF q'] by simp
  qed
qed

lemma ledger_invariant_quantity_nonneg: "ledger_invariant s \<Longrightarrow> quantity_nonneg s"
  by (simp add: ledger_invariant_def quantity_nonneg_def)

lemma admissible_reserve_nonneg:
  assumes inv: "ledger_invariant s" and "0 \<le> q"
  shows "op_admissible s (OpReserve mid q req u)"
proof (cases "materials s mid")
  case None
  then show ?thesis by simp
next
  case (Some m)
  from ledger_invariantD [OF inv Some] have "0 \<le> m_reserved m" by simp
  with Some assms(2) show ?thesis by simp
qed

lemma admissible_release_nonneg:
  assumes inv: "ledger_invariant s"
    and nn: "\<forall>r. reservations s rid = Some r \<longrightarrow> 0 \<le> rs_quantity r"
  shows "op_admissible s (OpRelease rid)"
proof (cases "reservations s rid")
  case None
  then show ?thesis by simp
next
  case (Some r)
  with nn have q: "0 \<le> rs_quantity r" by simp
  show ?thesis
  proof (cases "materials s (rs_material_id r)")
    case None
    with Some show ?thesis by simp
  next
    case (Some m)
    from ledger_invariantD [OF inv Some] have "m_reserved m \<le> m_quantity m" by simp
    with q have "m_reserved m - rs_quantity r \<le> m_quantity m" by simp
    with Some \<open>reservations s rid = Some r\<close> show ?thesis by simp
  qed
qed

lemma admissible_update_nonneg:
  assumes inv: "ledger_invariant s" and "0 \<le> d"
  shows "op_admissible s (OpUpdateQuantity mid d rsn ref u)"
proof (cases "materials s mid")
  case None
  then show ?thesis by simp
next
  case (Some m)
  from ledger_invariantD [OF inv Some]
  have "m_reserved m \<le> m_quantity m" and "0 \<le> m_quantity m" by simp_all
  with assms(2) have "m_reserved m \<le> max 0 (m_quantity m + d)" by simp
  with Some show ?thesis by simp
qed

lemma sand_ledger_invariant: "ledger_invariant (sand_ledger q r) \<longleftrightarrow> 0 \<le> r \<and> r \<le> q"
  by (auto simp: ledger_invariant_def sand_ledger_def sand_def)

lemma sand_row_invariant:
  "ledger_invariant \<lparr>materials = [''m1'' \<mapsto> sand q r], reservations = rs, movements = ms\<rparr>
     \<longleftrightarrow> 0 \<le> r \<and> r \<le> q"
  by (auto simp: ledger_invariant_def sand_def)

text \<open>
  Claim C1, as stated: from a state with \<open>0 \<le> reserved \<le> quantity\<close>, the invariant
  holds after every reserve, release and update of the quantity. It fails in three
  ways, each from a state that satisfies it. With 100 on hand and 90 reserved,
  \<^verbatim>\<open>update_quantity\<close> with delta \<open>-50\<close> leaves quantity 50 and reserved 90. With 100
  on hand and nothing reserved, a reserve of \<open>-5\<close> is accepted and leaves \<open>-5\<close>
  reserved. With 10 on hand and 10 reserved, a reserve of \<open>-5\<close> and a reserve of 5
  keep the invariant, and the release of the first then leaves 15 reserved.
\<close>

theorem ledger_invariant_counterexample:
  "ledger_invariant (sand_ledger 100 90) \<and>
   map ledger_invariant (ledger_states (sand_ledger 100 90) overdraw_ops) = [False] \<and>
   ledger_invariant (sand_ledger 100 0) \<and>
   map ledger_invariant (ledger_states (sand_ledger 100 0) negative_reserve_ops) = [False] \<and>
   ledger_invariant (sand_ledger 10 10) \<and>
   map ledger_invariant (ledger_states (sand_ledger 10 10) negative_release_ops)
     = [True, True, False]"
proof -
  have a: "map ledger_invariant (ledger_states (sand_ledger 100 90) overdraw_ops) = [False]"
    by (simp add: overdraw_ops_def sand_ledger_def update_quantity_def Let_def)
       (simp add: sand_row_invariant [of 50 90, unfolded sand_def] sand_def)
  have b: "map ledger_invariant (ledger_states (sand_ledger 100 0) negative_reserve_ops)
             = [False]"
    by (simp add: negative_reserve_ops_def sand_ledger_def reserve_def)
       (simp add: sand_row_invariant [of 100 "- 5", unfolded sand_def] sand_def)
  have c: "map ledger_invariant (ledger_states (sand_ledger 10 10) negative_release_ops)
             = [True, True, False]"
    by (simp add: negative_release_ops_def sand_ledger_def reserve_def
          release_reservation_def Let_def)
       (simp add: sand_row_invariant [of 10 5, unfolded sand_def]
          sand_row_invariant [of 10 10, unfolded sand_def]
          sand_row_invariant [of 10 15, unfolded sand_def] sand_def)
  from a b c show ?thesis by (simp add: sand_ledger_invariant)
qed

text \<open>
  Claim C1, amended: from a state with \<open>0 \<le> reserved \<le> quantity\<close>, \<open>quantity \<ge> 0\<close>
  holds after every operation of every sequence of reserve, release and update-quantity
  operations. The whole invariant \<open>0 \<le> reserved \<le> quantity\<close> holds after every
  operation of a sequence if and only if every operation, in the state it runs in, is:
  a reserve that is refused, or accepted with \<open>reserved + requested \<ge> 0\<close>; a release
  that is refused, or finds no material row, or has
  \<open>reserved - reservation quantity \<le> quantity\<close>; an update of the quantity of an
  unknown material, or with \<open>reserved \<le> max(0, quantity + delta)\<close>. From such a state
  every reserve of a non-negative quantity, every release of a reservation of
  non-negative quantity and every update with a non-negative delta is one of these. The
  update sets the quantity to \<open>max(0, quantity + delta)\<close> and leaves the rest of the
  row, \<open>reserved\<close> included, as it was.
\<close>

theorem ledger_invariant_preserved:
  assumes "ledger_invariant s"
  shows "(\<forall>s'\<in>set (ledger_states s ops). quantity_nonneg s') \<and>
         ((\<forall>s'\<in>set (ledger_states s ops). ledger_invariant s') \<longleftrightarrow> ops_admissible s ops) \<and>
         (0 \<le> q \<longrightarrow> op_admissible s (OpReserve mid q req u)) \<and>
         ((\<forall>r. reservations s rid = Some r \<longrightarrow> 0 \<le> rs_quantity r) \<longrightarrow>
            op_admissible s (OpRelease rid)) \<and>
         (0 \<le> d \<longrightarrow> op_admissible s (OpUpdateQuantity mid d rsn ref u)) \<and>
         (\<forall>m. materials s mid = Some m \<longrightarrow>
            materials (ledger_step s (OpUpdateQuantity mid d rsn ref u)) mid
              = Some (m\<lparr>m_quantity := max 0 (m_quantity m + d)\<rparr>))"
proof (intro conjI)
  show "\<forall>s'\<in>set (ledger_states s ops). quantity_nonneg s'"
    using states_quantity_nonneg [OF ledger_invariant_quantity_nonneg [OF assms]] by blast
  show "(\<forall>s'\<in>set (ledger_states s ops). ledger_invariant s') \<longleftrightarrow> ops_admissible s ops"
    using assms by (rule states_invariant_iff)
  show "0 \<le> q \<longrightarrow> op_admissible s (OpReserve mid q req u)"
    using admissible_reserve_nonneg [OF assms] by blast
  show "(\<forall>r. reservations s rid = Some r \<longrightarrow> 0 \<le> rs_quantity r) \<longrightarrow>
          op_admissible s (OpRelease rid)"
    using admissible_release_nonneg [OF assms] by blast
  show "0 \<le> d \<longrightarrow> op_admissible s (OpUpdateQuantity mid d rsn ref u)"
    using admissible_update_nonneg [OF assms] by blast
  show "\<forall>m. materials s mid = Some m \<longrightarrow>
          materials (ledger_step s (OpUpdateQuantity mid d rsn ref u)) mid
            = Some (m\<lparr>m_quantity := max 0 (m_quantity m + d)\<rparr>)"
    by (simp add: update_quantity_materials)
qed

theorem ledger_invariant_preserved_witness:
  "ledger_invariant (sand_ledger 100 0) \<and>
   ops_admissible (sand_ledger 100 0) sample_ops \<and>
   ledger_invariant (last (ledger_states (sand_ledger 100 0) sample_ops)) \<and>
   quantity_nonneg (last (ledger_states (sand_ledger 100 0) sample_ops)) \<and>
   ops_admissible (sand_ledger 100 0) clearing_ops \<and>
   ledger_invariant (last (ledger_states (sand_ledger 100 0) clearing_ops)) \<and>
   map_option m_quantity
     (materials (last (ledger_states (sand_ledger 100 0) clearing_ops)) ''m1'') = Some 0 \<and>
   ledger_invariant (sand_ledger 100 90) \<and>
   \<not> ops_admissible (sand_ledger 100 90) overdraw_ops \<and>
   \<not> ledger_invariant (last (ledger_states (sand_ledger 100 90) overdraw_ops))"
proof -
  have inv: "ledger_invariant (sand_ledger 100 0)"
    and inv90: "ledger_invariant (sand_ledger 100 90)"
    by (simp_all add: sand_ledger_invariant)
  have adm: "ops_admissible (sand_ledger 100 0) sample_ops"
    by (simp add: sample_ops_def sand_ledger_def sand_def reserve_def update_quantity_def
          release_reservation_def Let_def)
  have clr: "ops_admissible (sand_ledger 100 0) clearing_ops"
    by (simp add: clearing_ops_def sand_ledger_def sand_def)
  have over: "\<not> ops_admissible (sand_ledger 100 90) overdraw_ops"
    by (simp add: overdraw_ops_def sand_ledger_def sand_def)
  have mem: "last (ledger_states (sand_ledger 100 0) sample_ops)
               \<in> set (ledger_states (sand_ledger 100 0) sample_ops)"
    by (simp add: sample_ops_def)
  have last_clr: "ledger_states (sand_ledger 100 0) clearing_ops
                    = [ledger_step (sand_ledger 100 0)
                         (OpUpdateQuantity ''m1'' (- 200) ''CONSUMPTION'' None ''mv1'')]"
    and last_over: "ledger_states (sand_ledger 100 90) overdraw_ops
                    = [ledger_step (sand_ledger 100 90)
                         (OpUpdateQuantity ''m1'' (- 50) ''CONSUMPTION'' None ''mv1'')]"
    by (simp_all add: clearing_ops_def overdraw_ops_def)
  note a = ledger_invariant_preserved [OF inv, of sample_ops]
  note b = ledger_invariant_preserved [OF inv, of clearing_ops _ "''m1''" _ _ _ "- 200"
      "''CONSUMPTION''" None]
  note c = ledger_invariant_preserved [OF inv90, of overdraw_ops]
  from a adm mem
  have 1: "ledger_invariant (last (ledger_states (sand_ledger 100 0) sample_ops))"
    and 2: "quantity_nonneg (last (ledger_states (sand_ledger 100 0) sample_ops))"
    by blast+
  from b clr have 3: "ledger_invariant (last (ledger_states (sand_ledger 100 0) clearing_ops))"
    by (simp add: last_clr)
  have m: "materials (sand_ledger 100 0) ''m1'' = Some (sand 100 0)"
    by (simp add: sand_ledger_def)
  from b m have 4: "map_option m_quantity
     (materials (last (ledger_states (sand_ledger 100 0) clearing_ops)) ''m1'') = Some 0"
    by (simp add: last_clr sand_def)
  from c over have 5: "\<not> ledger_invariant (last (ledger_states (sand_ledger 100 90) overdraw_ops))"
    by (simp add: last_over)
  from inv inv90 adm clr over 1 2 3 4 5 show ?thesis by simp
qed

subsection \<open>Reserving\<close>

lemma overdrawn_ledger_eq:
  "overdrawn_ledger =
     \<lparr>materials = [''m1'' \<mapsto> sand 50 90], reservations = Map.empty,
      movements = [\<lparr>sm_id = ''mv1'', sm_material_id = ''m1'', sm_quantity_delta = - 50,
                     sm_reason = ''CONSUMPTION'', sm_reference_id = None\<rparr>]\<rparr>"
  by (simp add: overdrawn_ledger_def sand_ledger_def sand_def update_quantity_def Let_def)

text \<open>
  Claim C6, as stated: reserve succeeds if and only if the material exists and
  \<open>available \<ge> quantity\<close>, and fails only with not-found or insufficient stock. It
  fails on the ledger left by an update of the quantity from 100 to 50 while 90 are
  reserved: \<open>available\<close> is 0, a request for 0 passes the use case's check and is then
  refused by the repository, whose check is on \<open>quantity - reserved = -40\<close>; the answer
  is the third message, "Failed to create reservation".
\<close>

theorem reserve_counterexample:
  "map_option available (get_by_id overdrawn_ledger ''m1'') = Some 0 \<and>
   rd_quantity (reserve_request 0) = 0 \<and>
   rr_success (snd (ReserveMaterialUseCase_execute overdrawn_ledger (reserve_request 0) ''r9'')) = False \<and>
   rr_error_message (snd (ReserveMaterialUseCase_execute overdrawn_ledger (reserve_request 0) ''r9''))
     = Some FailedToCreateReservation"
  by (simp add: overdrawn_ledger_eq ReserveMaterialUseCase_execute_def get_by_id_def
        reserve_request_def can_reserve_def available_def sand_def reserve_def
        reservation_failure_def)

lemma execute_not_found:
  "get_by_id s (rd_material_id dto) = None \<Longrightarrow>
   ReserveMaterialUseCase_execute s dto new_uuid =
     (s, reservation_failure (MaterialNotFound (rd_material_id dto)))"
  by (simp add: ReserveMaterialUseCase_execute_def)

lemma execute_insufficient:
  "get_by_id s (rd_material_id dto) = Some m \<Longrightarrow> available m < rd_quantity dto \<Longrightarrow>
   ReserveMaterialUseCase_execute s dto new_uuid =
     (s, reservation_failure (InsufficientQuantity (available m) (rd_quantity dto)))"
  by (simp add: ReserveMaterialUseCase_execute_def can_reserve_def)

lemma execute_failed:
  "get_by_id s (rd_material_id dto) = Some m \<Longrightarrow> \<not> available m < rd_quantity dto \<Longrightarrow>
   m_quantity m - m_reserved m < rd_quantity dto \<Longrightarrow>
   ReserveMaterialUseCase_execute s dto new_uuid =
     (s, reservation_failure FailedToCreateReservation)"
  by (simp add: ReserveMaterialUseCase_execute_def can_reserve_def reserve_def get_by_id_def)

lemma execute_success:
  "get_by_id s (rd_material_id dto) = Some m \<Longrightarrow>
   \<not> m_quantity m - m_reserved m < rd_quantity dto \<Longrightarrow> new_uuid \<noteq> [] \<Longrightarrow>
   ReserveMaterialUseCase_execute s dto new_uuid =
     (s\<lparr>materials := (materials s)(rd_material_id dto \<mapsto>
            m\<lparr>m_reserved := m_reserved m + rd_quantity dto\<rparr>),
        reservations := (reservations s)(new_uuid \<mapsto>
            \<lparr>rs_material_id = rd_material_id dto, rs_request_id = rd_request_id dto,
             rs_quantity = rd_quantity dto, rs_status = ''ACTIVE''\<rparr>)\<rparr>,
      \<lparr>rr_success = True, rr_reservation_id = Some new_uuid,
       rr_reserved_quantity = rd_quantity dto, rr_error_message = None\<rparr>)"
  by (simp add: ReserveMaterialUseCase_execute_def can_reserve_def available_def reserve_def
        get_by_id_def)

text \<open>
  Claim C6, amended: for a drawn identifier that is non-empty and fresh, reserve succeeds
  if and only if the material exists and \<open>quantity - reserved \<ge> requested\<close>, which
  is \<open>available \<ge> requested\<close> whenever the request is positive or
  \<open>reserved \<le> quantity\<close>. On success \<open>reserved\<close> grows by exactly the requested
  quantity, nothing else of the material changes, and a reservation with status
  \<^verbatim>\<open>ACTIVE\<close> is created under the identifier returned. On failure the ledger is
  unchanged and the message is: not found for an unknown id, insufficient quantity when
  \<open>available < requested\<close>, and otherwise "Failed to create reservation".
\<close>

theorem reserve_characterisation:
  assumes nonempty: "new_uuid \<noteq> []"
    and fresh: "reservations s new_uuid = None"
    and run: "ReserveMaterialUseCase_execute s dto new_uuid = (s', r)"
  shows "(rr_success r \<longleftrightarrow>
            (\<exists>m. get_by_id s (rd_material_id dto) = Some m \<and>
                 rd_quantity dto \<le> m_quantity m - m_reserved m)) \<and>
         (\<forall>m. get_by_id s (rd_material_id dto) = Some m \<longrightarrow>
              0 < rd_quantity dto \<or> m_reserved m \<le> m_quantity m \<longrightarrow>
              (rd_quantity dto \<le> m_quantity m - m_reserved m \<longleftrightarrow> rd_quantity dto \<le> available m)) \<and>
         (rr_success r \<longrightarrow>
            (\<exists>m. get_by_id s (rd_material_id dto) = Some m \<and>
                 materials s' = (materials s)(rd_material_id dto \<mapsto>
                    m\<lparr>m_reserved := m_reserved m + rd_quantity dto\<rparr>) \<and>
                 reservations s' = (reservations s)(new_uuid \<mapsto>
                    \<lparr>rs_material_id = rd_material_id dto, rs_request_id = rd_request_id dto,
                     rs_quantity = rd_quantity dto, rs_status = ''ACTIVE''\<rparr>) \<and>
                 rr_reservation_id r = Some new_uuid \<and>
                 rr_reserved_quantity r = rd_quantity dto)) \<and>
         (\<not> rr_success r \<longrightarrow>
            s' = s \<and>
            rr_error_message r =
              (case get_by_id s (rd_material_id dto) of
                 None \<Rightarrow> Some (MaterialNotFound (rd_material_id dto))
               | Some m \<Rightarrow>
                   if available m < rd_quantity dto
                   then Some (InsufficientQuantity (available m) (rd_quantity dto))
                   else Some FailedToCreateReservation))"
proof (cases "get_by_id s (rd_material_id dto)")
  case None
  from run execute_not_found [OF None, of new_uuid]
  have "s' = s" and "r = reservation_failure (MaterialNotFound (rd_material_id dto))"
    by simp_all
  with None show ?thesis by (simp add: reservation_failure_def)
next
  case (Some m)
  show ?thesis
  proof (cases "available m < rd_quantity dto")
    case True
    from run execute_insufficient [OF Some True, of new_uuid]
    have "s' = s"
      and "r = reservation_failure (InsufficientQuantity (available m) (rd_quantity dto))"
      by simp_all
    moreover from True have "m_quantity m - m_reserved m < rd_quantity dto"
      by (simp add: available_def)
    ultimately show ?thesis using Some True by (simp add: reservation_failure_def)
  next
    case False
    show ?thesis
    proof (cases "m_quantity m - m_reserved m < rd_quantity dto")
      case True
      from run execute_failed [OF Some False True, of new_uuid]
      have "s' = s" and "r = reservation_failure FailedToCreateReservation"
        by simp_all
      moreover from True False have "\<not> 0 < rd_quantity dto" "\<not> m_reserved m \<le> m_quantity m"
        by (simp_all add: available_def)
      ultimately show ?thesis using Some False True by (simp add: reservation_failure_def)
    next
      case no: False
      from run execute_success [OF Some no nonempty]
      have "s' = s\<lparr>materials := (materials s)(rd_material_id dto \<mapsto>
                      m\<lparr>m_reserved := m_reserved m + rd_quantity dto\<rparr>),
                    reservations := (reservations s)(new_uuid \<mapsto>
                      \<lparr>rs_material_id = rd_material_id dto, rs_request_id = rd_request_id dto,
                       rs_quantity = rd_quantity dto, rs_status = ''ACTIVE''\<rparr>)\<rparr>"
        and "r = \<lparr>rr_success = True, rr_reservation_id = Some new_uuid,
                  rr_reserved_quantity = rd_quantity dto, rr_error_message = None\<rparr>"
        by simp_all
      with Some no False show ?thesis by simp
    qed
  qed
qed

theorem reserve_characterisation_witness:
  "''r9'' \<noteq> [] \<and> reservations (sand_ledger 100 90) ''r9'' = None \<and>
   rr_success (snd (ReserveMaterialUseCase_execute (sand_ledger 100 90) (reserve_request 10) ''r9'')) \<and>
   map_option m_reserved
     (materials (fst (ReserveMaterialUseCase_execute (sand_ledger 100 90) (reserve_request 10) ''r9''))
        ''m1'') = Some 100 \<and>
   \<not> rr_success (snd (ReserveMaterialUseCase_execute (sand_ledger 100 90) (reserve_request 11) ''r9'')) \<and>
   fst (ReserveMaterialUseCase_execute (sand_ledger 100 90) (reserve_request 11) ''r9'')
     = sand_ledger 100 90"
proof -
  have ne: "''r9'' \<noteq> []" by simp
  have fresh: "reservations (sand_ledger 100 90) ''r9'' = None"
    by (simp add: sand_ledger_def)
  have m: "get_by_id (sand_ledger 100 90) ''m1'' = Some (sand 100 90)"
    by (simp add: get_by_id_def sand_ledger_def)
  note ok = reserve_characterisation [OF ne fresh surjective_pairing,
      of "reserve_request 10"]
  note ko = reserve_characterisation [OF ne fresh surjective_pairing,
      of "reserve_request 11"]
  have s10: "rr_success (snd (ReserveMaterialUseCase_execute (sand_ledger 100 90)
               (reserve_request 10) ''r9''))"
    using ok m by (simp add: reserve_request_def sand_def)
  have f11: "\<not> rr_success (snd (ReserveMaterialUseCase_execute (sand_ledger 100 90)
               (reserve_request 11) ''r9''))"
    using ko m by (simp add: reserve_request_def sand_def)
  from ok s10 m have "map_option m_reserved
     (materials (fst (ReserveMaterialUseCase_execute (sand_ledger 100 90) (reserve_request 10) ''r9''))
        ''m1'') = Some 100"
    by (simp add: reserve_request_def sand_def)
  moreover from ko f11 have "fst (ReserveMaterialUseCase_execute (sand_ledger 100 90)
     (reserve_request 11) ''r9'') = sand_ledger 100 90"
    by simp
  ultimately show ?thesis using ne fresh s10 f11 by simp
qed

subsection \<open>Releasing\<close>

lemma reserved_ledger_eq:
  "reserved_ledger =
     \<lparr>materials = [''m1'' \<mapsto> sand 100 90],
      reservations = [''r1'' \<mapsto> \<lparr>rs_material_id = ''m1'', rs_request_id = ''req1'',
                                rs_quantity = 90, rs_status = ''ACTIVE''\<rparr>],
      movements = []\<rparr>"
  by (simp add: reserved_ledger_def sand_ledger_def sand_def reserve_def)

lemma released_ledger_eq:
  "released_ledger =
     \<lparr>materials = [''m1'' \<mapsto> sand 100 0],
      reservations = [''r1'' \<mapsto> \<lparr>rs_material_id = ''m1'', rs_request_id = ''req1'',
                                rs_quantity = 90, rs_status = ''CANCELLED''\<rparr>],
      movements = []\<rparr>"
  by (simp add: released_ledger_def reserved_ledger_eq release_reservation_def sand_def Let_def)

lemma skewed_ledger_eq:
  "skewed_ledger =
     \<lparr>materials = [''m1'' \<mapsto> sand 100 5],
      reservations = [''ra'' \<mapsto> \<lparr>rs_material_id = ''m1'', rs_request_id = ''req1'',
                                rs_quantity = 10, rs_status = ''ACTIVE''\<rparr>,
                      ''rb'' \<mapsto> \<lparr>rs_material_id = ''m1'', rs_request_id = ''req2'',
                                rs_quantity = - 5, rs_status = ''ACTIVE''\<rparr>],
      movements = []\<rparr>"
  by (simp add: skewed_ledger_def sand_ledger_def sand_def reserve_def)

text \<open>
  Claim C7, as stated: releasing a reservation that is not active returns the error
  \<open>AlreadyInactive\<close>, releasing an unknown one returns \<open>NotFound\<close>, and releasing an
  active one decrements \<open>reserved\<close> by the reservation's quantity. It fails twice. On
  the ledger where \<open>r1\<close> was reserved and released, releasing \<open>r1\<close> again and
  releasing the unknown \<open>r0\<close> return the same \<^verbatim>\<open>False\<close>: the method's only failure
  value. And on the ledger where 10 and then \<open>-5\<close> were reserved (5 reserved in all),
  releasing the reservation of 10 leaves 0 reserved, not \<open>5 - 10\<close>: the new value is
  clamped at zero.
\<close>

theorem release_counterexample:
  "map_option rs_status (reservations released_ledger ''r1'') = Some ''CANCELLED'' \<and>
   reservations released_ledger ''r0'' = None \<and>
   snd (release_reservation released_ledger ''r1'') = False \<and>
   snd (release_reservation released_ledger ''r0'') = False \<and>
   map_option m_reserved (materials skewed_ledger ''m1'') = Some 5 \<and>
   map_option rs_quantity (reservations skewed_ledger ''ra'') = Some 10 \<and>
   map_option m_reserved
     (materials (fst (release_reservation skewed_ledger ''ra'')) ''m1'') = Some 0"
  by (simp add: released_ledger_eq skewed_ledger_eq release_reservation_def sand_def Let_def)

text \<open>
  Claim C7, amended: releasing an \<^verbatim>\<open>ACTIVE\<close> reservation returns \<^verbatim>\<open>True\<close>, sets its
  status to \<^verbatim>\<open>CANCELLED\<close> and sets the material's \<open>reserved\<close> to
  \<open>max(0, reserved - quantity)\<close>, which is \<open>reserved - quantity\<close> whenever the
  reservation's quantity is at most \<open>reserved\<close> (a reservation whose material row is
  gone is cancelled all the same). Releasing a reservation that is not \<^verbatim>\<open>ACTIVE\<close>, or
  an unknown one, returns the one value \<^verbatim>\<open>False\<close> and changes nothing.
\<close>

theorem release_characterisation:
  "(reservations s rid = None \<longrightarrow> release_reservation s rid = (s, False)) \<and>
   (\<forall>r. reservations s rid = Some r \<and> rs_status r \<noteq> ''ACTIVE'' \<longrightarrow>
        release_reservation s rid = (s, False)) \<and>
   (\<forall>r. reservations s rid = Some r \<and> rs_status r = ''ACTIVE'' \<longrightarrow>
        snd (release_reservation s rid) = True \<and>
        reservations (fst (release_reservation s rid)) =
          (reservations s)(rid \<mapsto> r\<lparr>rs_status := ''CANCELLED''\<rparr>) \<and>
        (materials s (rs_material_id r) = None \<longrightarrow>
           materials (fst (release_reservation s rid)) = materials s) \<and>
        (\<forall>m. materials s (rs_material_id r) = Some m \<longrightarrow>
           materials (fst (release_reservation s rid)) =
             (materials s)(rs_material_id r \<mapsto>
                m\<lparr>m_reserved := max 0 (m_reserved m - rs_quantity r)\<rparr>) \<and>
           (rs_quantity r \<le> m_reserved m \<longrightarrow>
              max 0 (m_reserved m - rs_quantity r) = m_reserved m - rs_quantity r)))"
  by (simp add: release_reservation_def Let_def)

theorem release_characterisation_witness:
  "map_option rs_status (reservations reserved_ledger ''r1'') = Some ''ACTIVE'' \<and>
   snd (release_reservation reserved_ledger ''r1'') = True \<and>
   map_option rs_status (reservations (fst (release_reservation reserved_ledger ''r1'')) ''r1'')
     = Some ''CANCELLED'' \<and>
   map_option m_reserved (materials (fst (release_reservation reserved_ledger ''r1'')) ''m1'')
     = Some 0 \<and>
   release_reservation released_ledger ''r1'' = (released_ledger, False) \<and>
   release_reservation released_ledger ''r0'' = (released_ledger, False)"
proof -
  have r: "reservations reserved_ledger ''r1'' =
             Some \<lparr>rs_material_id = ''m1'', rs_request_id = ''req1'',
                   rs_quantity = 90, rs_status = ''ACTIVE''\<rparr>"
    and m: "materials reserved_ledger ''m1'' = Some (sand 100 90)"
    by (simp_all add: reserved_ledger_eq)
  have c: "reservations released_ledger ''r1'' =
             Some \<lparr>rs_material_id = ''m1'', rs_request_id = ''req1'',
                   rs_quantity = 90, rs_status = ''CANCELLED''\<rparr>"
    and u: "reservations released_ledger ''r0'' = None"
    by (simp_all add: released_ledger_eq)
  from release_characterisation [of reserved_ledger "''r1''"] r m
  have "snd (release_reservation reserved_ledger ''r1'') = True"
    and "map_option rs_status
           (reservations (fst (release_reservation reserved_ledger ''r1'')) ''r1'')
         = Some ''CANCELLED''"
    and "map_option m_reserved
           (materials (fst (release_reservation reserved_ledger ''r1'')) ''m1'') = Some 0"
    by (simp_all add: sand_def)
  moreover from release_characterisation [of released_ledger "''r1''"] c
  have "release_reservation released_ledger ''r1'' = (released_ledger, False)"
    by simp
  moreover from release_characterisation [of released_ledger "''r0''"] u
  have "release_reservation released_ledger ''r0'' = (released_ledger, False)"
    by simp
  ultimately show ?thesis using r by simp
qed

section \<open>Properties of the availability check\<close>

lemma check_unknown:
  "get_by_id s (ac_material_id dto) = None \<Longrightarrow>
   CheckAvailabilityUseCase_execute s pub dto rid flag now =
     (Inl (ValueError (ac_material_id dto)), [])"
  by (simp add: CheckAvailabilityUseCase_execute_def)

lemma check_no_publish:
  "get_by_id s (ac_material_id dto) = Some m \<Longrightarrow>
   \<not> (0 < max 0 (ac_requested_quantity dto - available m) \<and> flag \<and> pub \<noteq> None) \<Longrightarrow>
   CheckAvailabilityUseCase_execute s pub dto rid flag now = (Inr (availability_result m dto), [])"
  by (auto simp: CheckAvailabilityUseCase_execute_def Let_def split: option.splits)

lemma check_publish:
  "get_by_id s (ac_material_id dto) = Some m \<Longrightarrow>
   0 < max 0 (ac_requested_quantity dto - available m) \<Longrightarrow> flag \<Longrightarrow>
   CheckAvailabilityUseCase_execute s (Some p) dto rid flag now =
     ((case p (shortage_call m dto rid now) of
         Inl e \<Rightarrow> Inl e | Inr published \<Rightarrow> Inr (availability_result m dto)),
      [shortage_call m dto rid now])"
  by (auto simp: CheckAvailabilityUseCase_execute_def Let_def split: sum.splits)

text \<open>
  Claim C9, as stated: the check publishes exactly one shortage event if and only if
  \<open>shortage > 0\<close>. It fails for a use case built without a publisher (the default of its
  constructor): with 100 on hand, 90 reserved and 50 requested the shortage is 40 and
  nothing is published.
\<close>

theorem check_event_counterexample:
  "map_option available (get_by_id (sand_ledger 100 90) (ac_material_id sand_check)) = Some 10 \<and>
   ac_requested_quantity sand_check = 50 \<and>
   CheckAvailabilityUseCase_execute (sand_ledger 100 90) None sand_check None True ''t0''
     = (Inr \<lparr>ar_material_id = ''m1'', ar_material_name = ''sand'', ar_is_available = False,
             ar_available_quantity = 10, ar_requested_quantity = 50, ar_shortage = 40\<rparr>, [])"
  by (simp add: CheckAvailabilityUseCase_execute_def get_by_id_def sand_ledger_def sand_check_def
        sand_def available_def availability_result_def Let_def)

text \<open>
  Claim C9, amended: for every existing material and requested quantity, the check calls
  the publisher exactly once, with a shortage event carrying
  \<open>shortage = max(0, requested - available)\<close>, if and only if \<open>shortage > 0\<close>, the
  flag \<^verbatim>\<open>publish_shortage\<close> is set (its default) and a publisher is configured; otherwise
  it makes no call. Whenever it returns a result, that result has
  \<open>is_available = (available \<ge> requested)\<close> and that shortage; it returns one unless
  the call to the publisher raised.
\<close>

theorem check_result_and_event:
  assumes "get_by_id s (ac_material_id dto) = Some m"
  shows "snd (CheckAvailabilityUseCase_execute s pub dto rid flag now) =
           (if 0 < max 0 (ac_requested_quantity dto - available m) \<and> flag \<and> pub \<noteq> None
            then [shortage_call m dto rid now] else []) \<and>
         ev_shortage (pc_message (shortage_call m dto rid now)) =
           max 0 (ac_requested_quantity dto - available m) \<and>
         (\<forall>result. fst (CheckAvailabilityUseCase_execute s pub dto rid flag now) = Inr result \<longrightarrow>
            ar_is_available result = (available m \<ge> ac_requested_quantity dto) \<and>
            ar_available_quantity result = available m \<and>
            ar_shortage result = max 0 (ac_requested_quantity dto - available m)) \<and>
         ((\<exists>result. fst (CheckAvailabilityUseCase_execute s pub dto rid flag now) = Inr result) \<longleftrightarrow>
            \<not> (0 < max 0 (ac_requested_quantity dto - available m) \<and> flag \<and>
               (\<exists>p e. pub = Some p \<and> p (shortage_call m dto rid now) = Inl e)))"
proof (cases "0 < max 0 (ac_requested_quantity dto - available m) \<and> flag \<and> pub \<noteq> None")
  case False
  from check_no_publish [OF assms False]
  show ?thesis using False by (auto simp: availability_result_def shortage_call_def shortage_event_def)
next
  case True
  then obtain p where p: "pub = Some p" by auto
  from True have sh: "0 < max 0 (ac_requested_quantity dto - available m)" and fl: flag
    by simp_all
  show ?thesis
    unfolding p check_publish [OF assms sh fl]
    using sh fl
    by (cases "p (shortage_call m dto rid now)")
       (simp_all add: availability_result_def shortage_call_def shortage_event_def)
qed


lemma sand_available: "available (sand q r) = max 0 (q - r)"
  by (simp add: available_def sand_def)

lemma sand_get: "get_by_id (sand_ledger q r) (ac_material_id sand_check) = Some (sand q r)"
  by (simp add: get_by_id_def sand_ledger_def sand_check_def)

lemma sand_shortage: "0 < max 0 (ac_requested_quantity sand_check - available (sand 100 90))"
  by (simp add: sand_available sand_check_def)

lemma sand_check_publish:
  "CheckAvailabilityUseCase_execute (sand_ledger 100 90) (Some p) sand_check rid True now =
     ((case p (shortage_call (sand 100 90) sand_check rid now) of
         Inl e \<Rightarrow> Inl e | Inr published \<Rightarrow> Inr (availability_result (sand 100 90) sand_check)),
      [shortage_call (sand 100 90) sand_check rid now])"
  using check_publish [OF sand_get sand_shortage TrueI] .

theorem check_result_and_event_witness:
  "get_by_id (sand_ledger 100 90) (ac_material_id sand_check) = Some (sand 100 90) \<and>
   map (\<lambda>c. ev_shortage (pc_message c))
     (snd (CheckAvailabilityUseCase_execute (sand_ledger 100 90) (Some stub_publisher)
             sand_check None True ''t0'')) = [40] \<and>
   snd (CheckAvailabilityUseCase_execute (sand_ledger 100 0) (Some stub_publisher)
          sand_check None True ''t0'') = []"
proof -
  note a = check_result_and_event [OF sand_get [of 100 90], of "Some stub_publisher" None True "''t0''"]
  note b = check_result_and_event [OF sand_get [of 100 0], of "Some stub_publisher" None True "''t0''"]
  from a have "map (\<lambda>c. ev_shortage (pc_message c))
     (snd (CheckAvailabilityUseCase_execute (sand_ledger 100 90) (Some stub_publisher)
             sand_check None True ''t0'')) = [40]"
    by (simp add: sand_available sand_check_def)
  moreover from b have "snd (CheckAvailabilityUseCase_execute (sand_ledger 100 0)
      (Some stub_publisher) sand_check None True ''t0'') = []"
    by (simp add: sand_available sand_check_def)
  ultimately show ?thesis using sand_get [of 100 90] by simp
qed

text \<open>
  Claim C10: in every shortage event published by the availability check, the field
  \<^verbatim>\<open>current_quantity\<close> is the material's available quantity
  \<open>max(0, quantity - reserved)\<close>, not the quantity on hand: 10, not 100, for 100 on
  hand and 90 reserved.
\<close>

theorem shortage_event_current_quantity:
  "\<forall>call\<in>set (snd (CheckAvailabilityUseCase_execute s pub dto rid flag now)).
     \<exists>m. get_by_id s (ac_material_id dto) = Some m \<and>
         ev_current_quantity (pc_message call) = max 0 (m_quantity m - m_reserved m)"
proof (cases "get_by_id s (ac_material_id dto)")
  case None
  then show ?thesis by (simp add: check_unknown)
next
  case (Some m)
  show ?thesis
  proof (cases "0 < max 0 (ac_requested_quantity dto - available m) \<and> flag \<and> pub \<noteq> None")
    case False
    then show ?thesis by (simp add: check_no_publish [OF Some False])
  next
    case True
    then obtain p where p: "pub = Some p" by auto
    from True have sh: "0 < max 0 (ac_requested_quantity dto - available m)" and fl: flag
      by simp_all
    show ?thesis
      unfolding p check_publish [OF Some sh fl]
      using Some by (simp add: shortage_call_def shortage_event_def available_def)
  qed
qed

theorem shortage_event_current_quantity_witness:
  "map_option m_quantity (get_by_id (sand_ledger 100 90) (ac_material_id sand_check)) = Some 100 \<and>
   map_option m_reserved (get_by_id (sand_ledger 100 90) (ac_material_id sand_check)) = Some 90 \<and>
   map (\<lambda>c. ev_current_quantity (pc_message c))
     (snd (CheckAvailabilityUseCase_execute (sand_ledger 100 90) (Some stub_publisher)
             sand_check None True ''t0'')) = [10]"
proof -
  have calls: "snd (CheckAvailabilityUseCase_execute (sand_ledger 100 90) (Some stub_publisher)
                  sand_check None True ''t0'')
               = [shortage_call (sand 100 90) sand_check None ''t0'']"
    by (simp add: sand_check_publish)
  from shortage_event_current_quantity
         [of "sand_ledger 100 90" "Some stub_publisher" sand_check None True "''t0''"]
  have "ev_current_quantity (pc_message (shortage_call (sand 100 90) sand_check None ''t0''))
          = max 0 (m_quantity (sand 100 90) - m_reserved (sand 100 90))"
    unfolding calls by (simp add: sand_get)
  then have "ev_current_quantity (pc_message (shortage_call (sand 100 90) sand_check None ''t0''))
          = 10"
    by (simp add: sand_def)
  with calls show ?thesis by (simp add: sand_get sand_def)
qed

text \<open>
  Claim C4, as stated: when the message publisher raises an error, the check still
  returns its availability result. It fails: the call to \<^verbatim>\<open>publish\<close> is not inside a
  \<^verbatim>\<open>try\<close>, so the publisher's exception is the outcome of the check.
\<close>

theorem publish_failure_counterexample:
  "raising_publisher (shortage_call (sand 100 90) sand_check None ''t0'')
     = Inl (PublishError ''connection reset'') \<and>
   CheckAvailabilityUseCase_execute (sand_ledger 100 90) (Some raising_publisher)
       sand_check None True ''t0''
     = (Inl (PublishError ''connection reset''),
        [shortage_call (sand 100 90) sand_check None ''t0''])"
  by (simp add: sand_check_publish) (simp add: raising_publisher_def)

text \<open>
  Claim C4, amended: a publication failure that the publisher reports by its return
  value does not fail the check. For every publisher whose \<^verbatim>\<open>publish\<close> returns
  (\<^verbatim>\<open>True\<close> or \<^verbatim>\<open>False\<close>) the check returns its availability result; the
  repository's \<^verbatim>\<open>RabbitMQPublisher\<close> always returns, \<^verbatim>\<open>False\<close> exactly when it is not
  connected or the broker raised, and then it has logged the error. An exception that
  escapes \<^verbatim>\<open>publish\<close> itself is not caught: it is the outcome of the check.
\<close>

theorem publish_failure_swallowed:
  assumes "get_by_id s (ac_material_id dto) = Some m"
  shows "((\<forall>e. p (shortage_call m dto rid now) \<noteq> Inl e) \<longrightarrow>
            fst (CheckAvailabilityUseCase_execute s (Some p) dto rid flag now)
              = Inr (availability_result m dto)) \<and>
         fst (CheckAvailabilityUseCase_execute s (Some (rabbitmq_publisher rmq)) dto rid flag now)
           = Inr (availability_result m dto) \<and>
         (\<forall>call. rabbitmq_publisher rmq call = Inr (rmq_channel rmq \<and> rmq_broker rmq call = None)) \<and>
         (\<forall>call. rabbitmq_publisher rmq call = Inr False \<longrightarrow>
            (\<exists>text. snd (RabbitMQPublisher_publish rmq call) = [LogError text])) \<and>
         (\<forall>e. 0 < max 0 (ac_requested_quantity dto - available m) \<and> flag \<and>
              p (shortage_call m dto rid now) = Inl e \<longrightarrow>
            fst (CheckAvailabilityUseCase_execute s (Some p) dto rid flag now) = Inl e)"
proof -
  have general: "fst (CheckAvailabilityUseCase_execute s (Some q) dto rid flag now)
                   = Inr (availability_result m dto)"
    if "\<forall>e. q (shortage_call m dto rid now) \<noteq> Inl e" for q
  proof (cases "0 < max 0 (ac_requested_quantity dto - available m) \<and> flag")
    case True
    then show ?thesis
      using that by (simp add: check_publish [OF assms] split: sum.splits)
  next
    case False
    then show ?thesis
      using check_no_publish [OF assms, of flag "Some q" rid now] by auto
  qed
  have rabbit: "rabbitmq_publisher rmq call = Inr (rmq_channel rmq \<and> rmq_broker rmq call = None)"
    for call
    by (simp add: rabbitmq_publisher_def RabbitMQPublisher_publish_def split: option.splits)
  have logged: "\<exists>text. snd (RabbitMQPublisher_publish rmq call) = [LogError text]"
    if "rabbitmq_publisher rmq call = Inr False" for call
    using that
    by (auto simp: rabbitmq_publisher_def RabbitMQPublisher_publish_def
          split: option.splits if_splits)
  have raised: "fst (CheckAvailabilityUseCase_execute s (Some p) dto rid flag now) = Inl e"
    if "0 < max 0 (ac_requested_quantity dto - available m) \<and> flag \<and>
        p (shortage_call m dto rid now) = Inl e" for e
    using that by (simp add: check_publish [OF assms])
  from general [of p] general [of "rabbitmq_publisher rmq"] rabbit logged raised
  show ?thesis by (simp add: rabbit)
qed

theorem publish_failure_swallowed_witness:
  "get_by_id (sand_ledger 100 90) (ac_material_id sand_check) = Some (sand 100 90) \<and>
   rabbitmq_publisher broken_rabbitmq (shortage_call (sand 100 90) sand_check None ''t0'')
     = Inr False \<and>
   snd (RabbitMQPublisher_publish broken_rabbitmq
          (shortage_call (sand 100 90) sand_check None ''t0''))
     = [LogError ''Failed to publish message: connection reset''] \<and>
   fst (CheckAvailabilityUseCase_execute (sand_ledger 100 90)
          (Some (rabbitmq_publisher broken_rabbitmq)) sand_check None True ''t0'')
     = Inr \<lparr>ar_material_id = ''m1'', ar_material_name = ''sand'', ar_is_available = False,
            ar_available_quantity = 10, ar_requested_quantity = 50, ar_shortage = 40\<rparr>"
proof -
  note w = publish_failure_swallowed [OF sand_get [of 100 90],
      of "rabbitmq_publisher broken_rabbitmq" None "''t0''" True broken_rabbitmq]
  have f: "rabbitmq_publisher broken_rabbitmq (shortage_call (sand 100 90) sand_check None ''t0'')
             = Inr False"
    using w by (simp add: broken_rabbitmq_def)
  have l: "snd (RabbitMQPublisher_publish broken_rabbitmq
                 (shortage_call (sand 100 90) sand_check None ''t0''))
           = [LogError ''Failed to publish message: connection reset'']"
    by (simp add: RabbitMQPublisher_publish_def broken_rabbitmq_def)
  from w have "fst (CheckAvailabilityUseCase_execute (sand_ledger 100 90)
          (Some (rabbitmq_publisher broken_rabbitmq)) sand_check None True ''t0'')
     = Inr (availability_result (sand 100 90) sand_check)"
    by simp
  then have "fst (CheckAvailabilityUseCase_execute (sand_ledger 100 90)
          (Some (rabbitmq_publisher broken_rabbitmq)) sand_check None True ''t0'')
     = Inr \<lparr>ar_material_id = ''m1'', ar_material_name = ''sand'', ar_is_available = False,
            ar_available_quantity = 10, ar_requested_quantity = 50, ar_shortage = 40\<rparr>"
    by (simp add: availability_result_def sand_available sand_check_def) (simp add: sand_def)
  with f l sand_get [of 100 90] show ?thesis by simp
qed

section \<open>Properties of the supplier selector\<close>

lemma three_candidates:
  "collect_candidates ''m1'' three_suppliers three_offers =
     [(supplier_of ''A'' (9 / 2) True, offer_of ''A'' ''m1'' 120),
      (supplier_of ''B'' (24 / 5) True, offer_of ''B'' ''m1'' 130),
      (supplier_of ''C'' (24 / 5) True, offer_of ''C'' ''m1'' 125)]"
  by (simp add: three_suppliers_def three_offers_def material_info_for_def supplier_of_def
        offer_of_def)

lemma select_example:
  "select_best_supplier ''m1'' three_suppliers three_offers =
     Some (supplier_of ''C'' (24 / 5) True, offer_of ''C'' ''m1'' 125)"
  by (simp add: select_best_supplier_def three_candidates candidate_key_def
        supplier_of_def offer_of_def less_eq_prod_def)

text \<open>The head of a sorted non-empty list is an element with the least key.\<close>

lemma sort_key_Nil_iff: "sort_key f xs = [] \<longleftrightarrow> xs = []"
  by (metis length_0_conv length_sort)

lemma hd_sort_key_least:
  fixes f :: "'a \<Rightarrow> 'k::linorder"
  assumes "xs \<noteq> []"
  shows "hd (sort_key f xs) \<in> set xs \<and> (\<forall>y\<in>set xs. f (hd (sort_key f xs)) \<le> f y)"
proof -
  have ne: "sort_key f xs \<noteq> []" using assms by (simp add: sort_key_Nil_iff)
  then have "hd (sort_key f xs) \<in> set (sort_key f xs)" by (rule hd_in_set)
  then have mem: "hd (sort_key f xs) \<in> set xs" by (simp only: set_sort)
  have "sorted (map f (sort_key f xs))" by simp
  then have "\<forall>y\<in>set (sort_key f xs). f (hd (sort_key f xs)) \<le> f y"
    using ne by (cases "sort_key f xs") auto
  then have "\<forall>y\<in>set xs. f (hd (sort_key f xs)) \<le> f y" by (simp only: set_sort)
  with mem show ?thesis by simp
qed

text \<open>The lookup of the selector finds the first offer of a list for the material.\<close>

lemma find_first:
  "find P xs = Some x \<longleftrightarrow>
     (\<exists>before after. xs = before @ x # after \<and> P x \<and> (\<forall>y\<in>set before. \<not> P y))"
proof (induction xs)
  case Nil
  then show ?case by simp
next
  case (Cons a xs)
  show ?case
  proof (cases "P a")
    case True
    have "(\<exists>before after. a # xs = before @ x # after \<and> P x \<and> (\<forall>y\<in>set before. \<not> P y))
            \<longleftrightarrow> a = x"
    proof
      assume "\<exists>before after. a # xs = before @ x # after \<and> P x \<and> (\<forall>y\<in>set before. \<not> P y)"
      then obtain before after
        where eq: "a # xs = before @ x # after" and no: "\<forall>y\<in>set before. \<not> P y"
        by blast
      show "a = x"
      proof (cases before)
        case Nil
        with eq show ?thesis by simp
      next
        case (Cons b bs)
        with eq have "a = b" by simp
        with Cons no True show ?thesis by simp
      qed
    next
      assume "a = x"
      with True have "a # xs = [] @ x # xs \<and> P x \<and> (\<forall>y\<in>set []. \<not> P y)" by simp
      then show "\<exists>before after. a # xs = before @ x # after \<and> P x \<and> (\<forall>y\<in>set before. \<not> P y)"
        by blast
    qed
    with True show ?thesis by simp
  next
    case False
    have "(\<exists>before after. a # xs = before @ x # after \<and> P x \<and> (\<forall>y\<in>set before. \<not> P y))
            \<longleftrightarrow> (\<exists>before after. xs = before @ x # after \<and> P x \<and> (\<forall>y\<in>set before. \<not> P y))"
    proof
      assume "\<exists>before after. a # xs = before @ x # after \<and> P x \<and> (\<forall>y\<in>set before. \<not> P y)"
      then obtain before after
        where eq: "a # xs = before @ x # after" and px: "P x"
          and no: "\<forall>y\<in>set before. \<not> P y"
        by blast
      show "\<exists>before after. xs = before @ x # after \<and> P x \<and> (\<forall>y\<in>set before. \<not> P y)"
      proof (cases before)
        case Nil
        with eq px False show ?thesis by simp
      next
        case (Cons b bs)
        with eq have "xs = bs @ x # after" by simp
        moreover from Cons no have "\<forall>y\<in>set bs. \<not> P y" by simp
        ultimately show ?thesis using px by blast
      qed
    next
      assume "\<exists>before after. xs = before @ x # after \<and> P x \<and> (\<forall>y\<in>set before. \<not> P y)"
      then obtain before after
        where eq: "xs = before @ x # after" and px: "P x"
          and no: "\<forall>y\<in>set before. \<not> P y"
        by blast
      from eq have "a # xs = (a # before) @ x # after" by simp
      moreover from no False have "\<forall>y\<in>set (a # before). \<not> P y" by simp
      ultimately show "\<exists>before after. a # xs = before @ x # after \<and> P x \<and>
                         (\<forall>y\<in>set before. \<not> P y)"
        using px by blast
    qed
    with False Cons.IH show ?thesis by simp
  qed
qed

lemma material_info_for_Some:
  "material_info_for mid ms = Some off \<longleftrightarrow> first_offer_for mid ms off"
  unfolding material_info_for_def first_offer_for_def
  by (rule find_first)

lemma material_info_for_None:
  "material_info_for mid ms = None \<longleftrightarrow> (\<forall>off\<in>set ms. off_material_id off \<noteq> mid)"
  by (auto simp: material_info_for_def find_None_iff)

lemma first_offer_forD:
  "first_offer_for mid ms off \<Longrightarrow> off \<in> set ms \<and> off_material_id off = mid"
  by (auto simp: first_offer_for_def)

lemma set_collect_candidates:
  "(s, off) \<in> set (collect_candidates mid sups sm) \<longleftrightarrow>
     s \<in> set sups \<and> s_is_active s \<and> first_offer_for mid (offers_of sm s) off"
proof (induction sups)
  case Nil
  then show ?case by simp
next
  case (Cons a sups)
  show ?case
  proof (cases "s_is_active a")
    case False
    with Cons show ?thesis by auto
  next
    case True
    show ?thesis
    proof (cases "material_info_for mid (offers_of sm a)")
      case None
      then have "\<not> first_offer_for mid (offers_of sm a) off"
        by (simp flip: material_info_for_Some)
      with None True Cons show ?thesis by (auto simp: offers_of_def)
    next
      case (Some found)
      then have "first_offer_for mid (offers_of sm a) off \<longleftrightarrow> found = off"
        by (simp flip: material_info_for_Some)
      with Some True Cons show ?thesis by (auto simp: offers_of_def)
    qed
  qed
qed

lemma collect_candidates_Nil_iff:
  "collect_candidates mid sups sm = [] \<longleftrightarrow>
     (\<forall>s\<in>set sups. \<not> s_is_active s \<or>
        (\<forall>off\<in>set (offers_of sm s). off_material_id off \<noteq> mid))"
proof (induction sups)
  case Nil
  then show ?case by simp
next
  case (Cons a sups)
  show ?case
  proof (cases "s_is_active a")
    case False
    with Cons show ?thesis by simp
  next
    case True
    show ?thesis
    proof (cases "material_info_for mid (offers_of sm a)")
      case None
      then have "\<forall>off\<in>set (offers_of sm a). off_material_id off \<noteq> mid"
        by (simp add: material_info_for_None)
      with None True Cons show ?thesis by (simp add: offers_of_def)
    next
      case (Some found)
      then have "\<not> (\<forall>off\<in>set (offers_of sm a). off_material_id off \<noteq> mid)"
        by (simp flip: material_info_for_None)
      with Some True show ?thesis by (simp add: offers_of_def)
    qed
  qed
qed

lemma candidate_key_le:
  "candidate_key (s, off) \<le> candidate_key (s', off') \<longleftrightarrow>
     s_rating s' < s_rating s \<or> (s_rating s' = s_rating s \<and> off_unit_price off \<le> off_unit_price off')"
  by (auto simp: candidate_key_def less_eq_prod_def)

text \<open>
  Claim C8, as stated: for every list of suppliers the selector keeps the suppliers
  having an offer for the material. It fails for a supplier that is not active: the
  loop skips it before it looks at its offers, so a list holding one inactive supplier
  with an offer for the material yields \<^verbatim>\<open>None\<close>.
\<close>

theorem select_best_counterexample:
  "inactive_supplier = [supplier_of ''A'' 5 False] \<and>
   offer_of ''A'' ''m1'' 120 \<in> set (offers_of one_offer (supplier_of ''A'' 5 False)) \<and>
   off_material_id (offer_of ''A'' ''m1'' 120) = ''m1'' \<and>
   select_best_supplier ''m1'' inactive_supplier one_offer = None"
  by (simp add: inactive_supplier_def one_offer_def offers_of_def select_best_supplier_def
        supplier_of_def offer_of_def)

text \<open>
  Claim C8, amended: the selector keeps the active suppliers having an offer for the
  material, each with the first offer for that material in its list, orders them by
  rating descending and then unit price ascending, and returns the first. It returns
  \<^verbatim>\<open>None\<close> exactly when no active supplier of the list has an offer whose material
  id is the one asked for. A pair it returns is an active supplier of the list and an
  offer that stands in that supplier's list, is for the material asked for, and has no
  offer for that material before it; and every active supplier of the list, with its
  first offer for the material, has a lower rating, or the same rating and a unit price
  at least as high. For the suppliers rated 4.5, 4.8 and 4.8 offering at 120, 130 and
  125 it returns the one rated 4.8 at 125.
\<close>

theorem select_best_characterisation:
  "(select_best_supplier mid sups sm = None \<longleftrightarrow>
      (\<forall>s\<in>set sups. \<not> s_is_active s \<or>
         (\<forall>off\<in>set (offers_of sm s). off_material_id off \<noteq> mid))) \<and>
   (\<forall>s off. select_best_supplier mid sups sm = Some (s, off) \<longrightarrow>
      s \<in> set sups \<and> s_is_active s \<and>
      off \<in> set (offers_of sm s) \<and> off_material_id off = mid \<and>
      first_offer_for mid (offers_of sm s) off \<and>
      (\<forall>s'\<in>set sups. \<forall>off'. s_is_active s' \<and> first_offer_for mid (offers_of sm s') off' \<longrightarrow>
         s_rating s' < s_rating s \<or>
         (s_rating s' = s_rating s \<and> off_unit_price off \<le> off_unit_price off'))) \<and>
   select_best_supplier ''m1'' three_suppliers three_offers =
     Some (supplier_of ''C'' (24 / 5) True, offer_of ''C'' ''m1'' 125)"
proof (intro conjI allI impI)
  show "select_best_supplier mid sups sm = None \<longleftrightarrow>
          (\<forall>s\<in>set sups. \<not> s_is_active s \<or>
             (\<forall>off\<in>set (offers_of sm s). off_material_id off \<noteq> mid))"
    by (simp add: select_best_supplier_def Let_def collect_candidates_Nil_iff)
next
  fix s off
  assume sel: "select_best_supplier mid sups sm = Some (s, off)"
  let ?cs = "collect_candidates mid sups sm"
  from sel have ne: "?cs \<noteq> []" and hd: "hd (sort_key candidate_key ?cs) = (s, off)"
    by (simp_all add: select_best_supplier_def Let_def split: if_splits)
  from hd_sort_key_least [OF ne, of candidate_key] hd
  have mem: "(s, off) \<in> set ?cs"
    and least: "\<forall>y\<in>set ?cs. candidate_key (s, off) \<le> candidate_key y"
    by simp_all
  from mem show "s \<in> set sups" and "s_is_active s"
    and first: "first_offer_for mid (offers_of sm s) off"
    by (simp_all add: set_collect_candidates)
  from first_offer_forD [OF first]
  show "off \<in> set (offers_of sm s)" and "off_material_id off = mid"
    by simp_all
  show "\<forall>s'\<in>set sups. \<forall>off'. s_is_active s' \<and> first_offer_for mid (offers_of sm s') off' \<longrightarrow>
          s_rating s' < s_rating s \<or>
          (s_rating s' = s_rating s \<and> off_unit_price off \<le> off_unit_price off')"
  proof (intro ballI allI impI)
    fix s' off'
    assume "s' \<in> set sups"
      and "s_is_active s' \<and> first_offer_for mid (offers_of sm s') off'"
    then have "(s', off') \<in> set ?cs" by (simp add: set_collect_candidates)
    with least have "candidate_key (s, off) \<le> candidate_key (s', off')" by blast
    then show "s_rating s' < s_rating s \<or>
          (s_rating s' = s_rating s \<and> off_unit_price off \<le> off_unit_price off')"
      by (simp add: candidate_key_le)
  qed
next
  show "select_best_supplier ''m1'' three_suppliers three_offers =
          Some (supplier_of ''C'' (24 / 5) True, offer_of ''C'' ''m1'' 125)"
    by (rule select_example)
qed

text \<open>
  The characterisation alone fixes the answer where the lookup matters: of the two
  suppliers, only the lower-rated one offers the material, after an offer for bricks.
\<close>

theorem select_best_characterisation_witness:
  "select_best_supplier ''m1'' two_suppliers mixed_offers =
     Some (supplier_of ''A'' (9 / 2) True, offer_of ''A'' ''m1'' 120) \<and>
   select_best_supplier ''m1'' three_suppliers three_offers =
     Some (supplier_of ''C'' (24 / 5) True, offer_of ''C'' ''m1'' 125) \<and>
   supplier_of ''B'' (24 / 5) True \<in> set three_suppliers \<and>
   first_offer_for ''m1'' (offers_of three_offers (supplier_of ''B'' (24 / 5) True))
     (offer_of ''B'' ''m1'' 130) \<and>
   s_rating (supplier_of ''B'' (24 / 5) True) = s_rating (supplier_of ''C'' (24 / 5) True) \<and>
   off_unit_price (offer_of ''C'' ''m1'' 125) \<le> off_unit_price (offer_of ''B'' ''m1'' 130) \<and>
   select_best_supplier ''m1'' [] three_offers = None"
proof -
  note m = select_best_characterisation [of "''m1''" two_suppliers mixed_offers]
  note w = select_best_characterisation [of "''m1''" three_suppliers three_offers]
  note e = select_best_characterisation [of "''m1''" "[]" three_offers]
  let ?A = "supplier_of ''A'' (9 / 2) True"
  let ?B = "supplier_of ''B'' (24 / 5) True"
  have offA: "offers_of mixed_offers ?A = [offer_of ''A'' ''bricks'' 50, offer_of ''A'' ''m1'' 120]"
    and offB: "offers_of mixed_offers ?B = [offer_of ''B'' ''bricks'' 60]"
    by (simp_all add: offers_of_def mixed_offers_def supplier_of_def)
  have "select_best_supplier ''m1'' two_suppliers mixed_offers \<noteq> None"
  proof
    assume "select_best_supplier ''m1'' two_suppliers mixed_offers = None"
    with m have "\<forall>s\<in>set two_suppliers. \<not> s_is_active s \<or>
         (\<forall>off\<in>set (offers_of mixed_offers s). off_material_id off \<noteq> ''m1'')"
      by blast
    then have "\<not> s_is_active ?A \<or>
         (\<forall>off\<in>set (offers_of mixed_offers ?A). off_material_id off \<noteq> ''m1'')"
      by (simp add: two_suppliers_def)
    then show False by (simp add: offA) (simp add: supplier_of_def offer_of_def)
  qed
  then obtain s off where sel: "select_best_supplier ''m1'' two_suppliers mixed_offers = Some (s, off)"
    by (cases "select_best_supplier ''m1'' two_suppliers mixed_offers") auto
  with m have s: "s \<in> set two_suppliers" and mem: "off \<in> set (offers_of mixed_offers s)"
    and mat: "off_material_id off = ''m1''"
    by blast+
  from s have "s = ?A \<or> s = ?B" by (simp add: two_suppliers_def)
  then have "s = ?A \<and> off = offer_of ''A'' ''m1'' 120"
  proof
    assume a: "s = ?A"
    with mem have "off = offer_of ''A'' ''bricks'' 50 \<or> off = offer_of ''A'' ''m1'' 120"
      by (simp add: offA)
    with mat a show ?thesis by (auto simp: offer_of_def)
  next
    assume b: "s = ?B"
    with mem have "off = offer_of ''B'' ''bricks'' 60" by (simp add: offB)
    with mat show ?thesis by (simp add: offer_of_def)
  qed
  with sel have mixed: "select_best_supplier ''m1'' two_suppliers mixed_offers =
     Some (supplier_of ''A'' (9 / 2) True, offer_of ''A'' ''m1'' 120)"
    by simp
  have b: "?B \<in> set three_suppliers"
    by (simp add: three_suppliers_def)
  have ob: "first_offer_for ''m1'' (offers_of three_offers ?B) (offer_of ''B'' ''m1'' 130)"
    by (simp flip: material_info_for_Some)
       (simp add: offers_of_def three_offers_def material_info_for_def supplier_of_def
          offer_of_def)
  have act: "s_is_active ?B"
    by (simp add: supplier_of_def)
  from w have sel3: "select_best_supplier ''m1'' three_suppliers three_offers =
     Some (supplier_of ''C'' (24 / 5) True, offer_of ''C'' ''m1'' 125)"
    by blast
  from w sel3 b ob act
  have "s_rating ?B < s_rating (supplier_of ''C'' (24 / 5) True) \<or>
        (s_rating ?B = s_rating (supplier_of ''C'' (24 / 5) True) \<and>
         off_unit_price (offer_of ''C'' ''m1'' 125) \<le> off_unit_price (offer_of ''B'' ''m1'' 130))"
    by blast
  then have "s_rating ?B = s_rating (supplier_of ''C'' (24 / 5) True)"
    and "off_unit_price (offer_of ''C'' ''m1'' 125) \<le> off_unit_price (offer_of ''B'' ''m1'' 130)"
    by (simp_all add: supplier_of_def offer_of_def)
  moreover from e have "select_best_supplier ''m1'' [] three_offers = None" by simp
  ultimately show ?thesis using mixed sel3 b ob by simp
qed

section \<open>Properties of the order use cases\<close>

subsection \<open>Placing an order for a shortage\<close>

lemma order_get_by_id_update:
  "order_get_by_id store (po_id order) \<noteq> None \<Longrightarrow>
   order_get_by_id (order_update store order) (po_id order) = Some order"
  by (induction store) (auto simp: order_get_by_id_def order_update_def)

lemma order_get_by_id_append:
  "order_get_by_id store (po_id order) = None \<Longrightarrow>
   order_get_by_id (store @ [order]) (po_id order) = Some order"
  by (induction store) (auto simp: order_get_by_id_def)

lemma order_get_by_id_save:
  "order_get_by_id (order_save store order) (po_id order) = Some order"
  by (simp add: order_save_def order_get_by_id_update order_get_by_id_append)

lemma order_get_by_id_id: "order_get_by_id store order_id = Some order \<Longrightarrow> po_id order = order_id"
  by (induction store) (auto simp: order_get_by_id_def split: if_splits)

lemma select_best_Nil: "select_best_supplier material_id [] supplier_materials = None"
  by (simp add: select_best_supplier_def)

lemma po_id_new_order: "po_id (new_order dto supplier info new_uuid) = new_uuid"
  by (simp add: new_order_def calculate_total_def)

lemma po_status_new_order: "po_status (new_order dto supplier info new_uuid) = PENDING"
  by (simp add: new_order_def calculate_total_def)

lemma process_shortage_rejected:
  assumes "select_best_supplier (ps_material_id dto)
             (get_for_material supplier_repo (ps_material_id dto))
             (collect_supplier_materials supplier_repo
                (get_for_material supplier_repo (ps_material_id dto))) = Some (supplier, info)"
    and "\<not> is_success (adapter supplier (new_order dto supplier info new_uuid))"
  shows "ProcessShortageUseCase_execute store supplier_repo adapter dto new_uuid now =
           (order_save store ((new_order dto supplier info new_uuid)\<lparr>po_status := CANCELLED\<rparr>),
            \<lparr>pr_success = False, pr_order_id = Some new_uuid,
             pr_message = ''Supplier rejected order: '' @ format_optional
                (oc_error_message (adapter supplier (new_order dto supplier info new_uuid))),
             pr_supplier_name = Some (s_name supplier), pr_estimated_cost = None\<rparr>)"
proof -
  from assms(1) have "get_for_material supplier_repo (ps_material_id dto) \<noteq> []"
    by (auto simp: select_best_Nil)
  with assms show ?thesis
    by (simp add: ProcessShortageUseCase_execute_def Let_def po_id_new_order)
qed

lemma process_shortage_accepted:
  assumes "select_best_supplier (ps_material_id dto)
             (get_for_material supplier_repo (ps_material_id dto))
             (collect_supplier_materials supplier_repo
                (get_for_material supplier_repo (ps_material_id dto))) = Some (supplier, info)"
    and "is_success (adapter supplier (new_order dto supplier info new_uuid))"
  shows "ProcessShortageUseCase_execute store supplier_repo adapter dto new_uuid now =
           (order_save store
              (mark_as_ordered (new_order dto supplier info new_uuid)
                 (oc_external_order_id (adapter supplier (new_order dto supplier info new_uuid)))
                 (case oc_estimated_delivery
                         (adapter supplier (new_order dto supplier info new_uuid)) of
                    Some d \<Rightarrow> d | None \<Rightarrow> now)),
            \<lparr>pr_success = True, pr_order_id = Some new_uuid,
             pr_message = ''Order placed with '' @ s_name supplier,
             pr_supplier_name = Some (s_name supplier),
             pr_estimated_cost = Some (po_total_price (new_order dto supplier info new_uuid))\<rparr>)"
proof -
  from assms(1) have "get_for_material supplier_repo (ps_material_id dto) \<noteq> []"
    by (auto simp: select_best_Nil)
  with assms show ?thesis
    by (simp add: ProcessShortageUseCase_execute_def Let_def po_id_new_order mark_as_ordered_def)
qed

text \<open>
  Claim C5, amended: when a supplier is selected and the placement port returns a
  confirmation that is not a success, the order is persisted with status
  \<^verbatim>\<open>CANCELLED\<close> and the result reports failure, with the order's id, the supplier's
  name and the supplier's failure reason in its message. On a success confirmation the
  order is persisted with status \<^verbatim>\<open>ORDERED\<close>, its \<^verbatim>\<open>external_order_id\<close> is the
  confirmation's, and its \<^verbatim>\<open>expected_delivery\<close> is the confirmation's estimate, or
  the current time when the confirmation carries none.
\<close>

theorem process_shortage_placement:
  assumes sel: "select_best_supplier (ps_material_id dto)
             (get_for_material supplier_repo (ps_material_id dto))
             (collect_supplier_materials supplier_repo
                (get_for_material supplier_repo (ps_material_id dto))) = Some (supplier, info)"
    and conf: "confirmation = adapter supplier (new_order dto supplier info new_uuid)"
    and run: "ProcessShortageUseCase_execute store supplier_repo adapter dto new_uuid now
                = (store', result)"
  shows "(\<not> is_success confirmation \<longrightarrow>
            (\<exists>order. order_get_by_id store' new_uuid = Some order \<and>
                     po_status order = CANCELLED \<and>
                     po_supplier_id order = s_id supplier \<and>
                     po_quantity order = ps_shortage_quantity dto) \<and>
            pr_success result = False \<and>
            pr_order_id result = Some new_uuid \<and>
            pr_supplier_name result = Some (s_name supplier) \<and>
            pr_message result = ''Supplier rejected order: ''
                                  @ format_optional (oc_error_message confirmation)) \<and>
         (is_success confirmation \<longrightarrow>
            (\<exists>order. order_get_by_id store' new_uuid = Some order \<and>
                     po_status order = ORDERED \<and>
                     po_external_order_id order = Some (oc_external_order_id confirmation) \<and>
                     po_expected_delivery order =
                       Some (case oc_estimated_delivery confirmation of
                               Some d \<Rightarrow> d | None \<Rightarrow> now)) \<and>
            pr_success result = True \<and>
            pr_order_id result = Some new_uuid)"
proof (cases "is_success confirmation")
  case False
  then have rej: "\<not> is_success (adapter supplier (new_order dto supplier info new_uuid))"
    using conf by simp
  from run process_shortage_rejected [where adapter = adapter and store = store and now = now, OF sel rej]
  have s: "store' = order_save store
             ((new_order dto supplier info new_uuid)\<lparr>po_status := CANCELLED\<rparr>)"
    and r: "result = \<lparr>pr_success = False, pr_order_id = Some new_uuid,
             pr_message = ''Supplier rejected order: '' @ format_optional
                (oc_error_message (adapter supplier (new_order dto supplier info new_uuid))),
             pr_supplier_name = Some (s_name supplier), pr_estimated_cost = None\<rparr>"
    by simp_all
  have "order_get_by_id store' new_uuid =
          Some ((new_order dto supplier info new_uuid)\<lparr>po_status := CANCELLED\<rparr>)"
    using order_get_by_id_save
            [of store "(new_order dto supplier info new_uuid)\<lparr>po_status := CANCELLED\<rparr>"]
    by (simp add: s po_id_new_order)
  then show ?thesis using False r conf
    by (simp add: new_order_def calculate_total_def)
next
  case True
  then have acc: "is_success (adapter supplier (new_order dto supplier info new_uuid))"
    using conf by simp
  let ?ordered = "mark_as_ordered (new_order dto supplier info new_uuid)
                    (oc_external_order_id confirmation)
                    (case oc_estimated_delivery confirmation of Some d \<Rightarrow> d | None \<Rightarrow> now)"
  from run process_shortage_accepted [where adapter = adapter and store = store and now = now, OF sel acc]
  have s: "store' = order_save store ?ordered"
    and r: "pr_success result = True" "pr_order_id result = Some new_uuid"
    using conf by auto
  have "po_id ?ordered = new_uuid"
    by (simp add: mark_as_ordered_def po_id_new_order)
  then have "order_get_by_id store' new_uuid = Some ?ordered"
    using order_get_by_id_save [of store ?ordered] by (simp add: s)
  then show ?thesis using True r
    by (simp add: mark_as_ordered_def)
qed


lemma sample_selection:
  "select_best_supplier (ps_material_id sample_shortage)
     (get_for_material sample_repo (ps_material_id sample_shortage))
     (collect_supplier_materials sample_repo
        (get_for_material sample_repo (ps_material_id sample_shortage)))
   = Some (supplier_of ''C'' (24 / 5) True, offer_of ''C'' ''m1'' 125)"
proof -
  have g: "get_for_material sample_repo (ps_material_id sample_shortage) = three_suppliers"
    by (simp add: sample_repo_def sample_shortage_def)
  have c: "collect_supplier_materials sample_repo three_suppliers = three_offers"
    by (simp add: collect_supplier_materials_def sample_repo_def three_suppliers_def
          three_offers_def supplier_of_def)
  show ?thesis
    unfolding g c using select_example by (simp add: sample_shortage_def)
qed

text \<open>
  Claim C5, as stated: on a success confirmation the persisted order's
  \<^verbatim>\<open>expected_delivery\<close> is set from the confirmation. It fails for a success
  confirmation that carries no delivery estimate (the field's default): the order is
  persisted with the current time, here 42, as its expected delivery.
\<close>

theorem process_shortage_counterexample:
  "is_success (confirming_adapter None (supplier_of ''C'' (24 / 5) True) sample_new_order) \<and>
   oc_estimated_delivery
     (confirming_adapter None (supplier_of ''C'' (24 / 5) True) sample_new_order) = None \<and>
   map_option po_expected_delivery
     (order_get_by_id
        (fst (ProcessShortageUseCase_execute [] sample_repo (confirming_adapter None)
                sample_shortage ''o9'' 42)) ''o9'') = Some (Some 42)"
proof -
  have ok: "is_success (confirming_adapter None (supplier_of ''C'' (24 / 5) True)
              (new_order sample_shortage (supplier_of ''C'' (24 / 5) True)
                 (offer_of ''C'' ''m1'' 125) ''o9''))"
    by (simp add: is_success_def confirming_adapter_def)
  have none: "oc_estimated_delivery
     (confirming_adapter None (supplier_of ''C'' (24 / 5) True) sample_new_order) = None"
    by (simp add: confirming_adapter_def)
  have "map_option po_expected_delivery
     (order_get_by_id
        (fst (ProcessShortageUseCase_execute [] sample_repo (confirming_adapter None)
                sample_shortage ''o9'' 42)) ''o9'') = Some (Some 42)"
    unfolding process_shortage_accepted
      [where adapter = "confirming_adapter None" and store = "[]" and now = 42,
       OF sample_selection ok]
    by (simp add: order_save_def order_get_by_id_def mark_as_ordered_def po_id_new_order
          confirming_adapter_def)
  with ok none show ?thesis by (simp add: sample_new_order_def)
qed

theorem process_shortage_placement_witness:
  "select_best_supplier (ps_material_id sample_shortage)
     (get_for_material sample_repo (ps_material_id sample_shortage))
     (collect_supplier_materials sample_repo
        (get_for_material sample_repo (ps_material_id sample_shortage)))
   = Some (supplier_of ''C'' (24 / 5) True, offer_of ''C'' ''m1'' 125) \<and>
   \<not> is_success (failing_adapter (supplier_of ''C'' (24 / 5) True) sample_new_order) \<and>
   map_option po_status
     (order_get_by_id
        (fst (ProcessShortageUseCase_execute [] sample_repo failing_adapter
                sample_shortage ''o9'' 42)) ''o9'') = Some CANCELLED \<and>
   pr_success (snd (ProcessShortageUseCase_execute [] sample_repo failing_adapter
                      sample_shortage ''o9'' 42)) = False \<and>
   pr_message (snd (ProcessShortageUseCase_execute [] sample_repo failing_adapter
                      sample_shortage ''o9'' 42))
     = ''Supplier rejected order: Simulated supplier error - please retry'' \<and>
   is_success (confirming_adapter (Some 7) (supplier_of ''C'' (24 / 5) True) sample_new_order) \<and>
   map_option po_status
     (order_get_by_id
        (fst (ProcessShortageUseCase_execute [] sample_repo (confirming_adapter (Some 7))
                sample_shortage ''o9'' 42)) ''o9'') = Some ORDERED \<and>
   map_option po_expected_delivery
     (order_get_by_id
        (fst (ProcessShortageUseCase_execute [] sample_repo (confirming_adapter (Some 7))
                sample_shortage ''o9'' 42)) ''o9'') = Some (Some 7) \<and>
   map_option po_external_order_id
     (order_get_by_id
        (fst (ProcessShortageUseCase_execute [] sample_repo (confirming_adapter (Some 7))
                sample_shortage ''o9'' 42)) ''o9'') = Some (Some ''STUB-1'')"
proof -
  have bad: "\<not> is_success (failing_adapter (supplier_of ''C'' (24 / 5) True) sample_new_order)"
    by (simp add: is_success_def failing_adapter_def)
  have good: "is_success (confirming_adapter (Some 7) (supplier_of ''C'' (24 / 5) True)
                sample_new_order)"
    by (simp add: is_success_def confirming_adapter_def)
  note f = process_shortage_placement
      [where adapter = failing_adapter and store = "[]" and now = 42 and new_uuid = "''o9''",
       OF sample_selection refl surjective_pairing]
  note c = process_shortage_placement
      [where adapter = "confirming_adapter (Some 7)" and store = "[]" and now = 42
         and new_uuid = "''o9''",
       OF sample_selection refl surjective_pairing]
  from f bad have
    "map_option po_status
       (order_get_by_id
          (fst (ProcessShortageUseCase_execute [] sample_repo failing_adapter
                  sample_shortage ''o9'' 42)) ''o9'') = Some CANCELLED"
    "pr_success (snd (ProcessShortageUseCase_execute [] sample_repo failing_adapter
                      sample_shortage ''o9'' 42)) = False"
    "pr_message (snd (ProcessShortageUseCase_execute [] sample_repo failing_adapter
                      sample_shortage ''o9'' 42))
       = ''Supplier rejected order: Simulated supplier error - please retry''"
    by (auto simp: sample_new_order_def failing_adapter_def format_optional_def)
  moreover from c good have
    "map_option po_status
       (order_get_by_id
          (fst (ProcessShortageUseCase_execute [] sample_repo (confirming_adapter (Some 7))
                  sample_shortage ''o9'' 42)) ''o9'') = Some ORDERED"
    "map_option po_expected_delivery
       (order_get_by_id
          (fst (ProcessShortageUseCase_execute [] sample_repo (confirming_adapter (Some 7))
                  sample_shortage ''o9'' 42)) ''o9'') = Some (Some 7)"
    "map_option po_external_order_id
       (order_get_by_id
          (fst (ProcessShortageUseCase_execute [] sample_repo (confirming_adapter (Some 7))
                  sample_shortage ''o9'' 42)) ''o9'') = Some (Some ''STUB-1'')"
    by (auto simp: sample_new_order_def confirming_adapter_def)
  ultimately show ?thesis using sample_selection bad good by simp
qed

subsection \<open>Cancelling and delivering an order\<close>

lemma order_get_by_id_update_same:
  "order_get_by_id store order_id = Some order \<Longrightarrow> po_id order' = po_id order \<Longrightarrow>
   order_get_by_id (order_update store order') order_id = Some order'"
proof -
  assume a: "order_get_by_id store order_id = Some order" and b: "po_id order' = po_id order"
  from a have "po_id order = order_id" by (rule order_get_by_id_id)
  with a b show ?thesis using order_get_by_id_update [of store order'] by simp
qed

lemma update_status_inventory:
  "inventory (fst (UpdateOrderStatusUseCase_execute w inventory_client order_id new_status))
     = inventory w"
  by (simp add: UpdateOrderStatusUseCase_execute_def update_inventory_def Let_def
        split: option.splits sum.splits)

lemma sample_order_found:
  "order_get_by_id (orders (sample_world st)) ''o1'' = Some (sample_order st)"
  by (simp add: sample_world_def order_get_by_id_def sample_order_def)

text \<open>
  Claim C3, as stated: cancelling an order whose status is \<^verbatim>\<open>DELIVERED\<close> or
  \<^verbatim>\<open>CANCELLED\<close> returns an invalid-transition error and leaves the status
  unchanged. It fails: cancelling a delivered order returns the order, and the order is
  stored with status \<^verbatim>\<open>CANCELLED\<close>.
\<close>

theorem cancel_counterexample:
  "map_option po_status (order_get_by_id (orders (sample_world DELIVERED)) ''o1'')
     = Some DELIVERED \<and>
   map_option po_status
     (order_get_by_id
        (orders (fst (UpdateOrderStatusUseCase_execute (sample_world DELIVERED) False
                        ''o1'' ''CANCELLED''))) ''o1'') = Some CANCELLED \<and>
   map_sum id (map_option od_status)
     (snd (UpdateOrderStatusUseCase_execute (sample_world DELIVERED) False ''o1'' ''CANCELLED''))
     = Inr (Some ''CANCELLED'')"
  by (simp add: UpdateOrderStatusUseCase_execute_def sample_order_found Let_def)
     (simp add: sample_world_def sample_order_def order_get_by_id_def order_update_def
        cancel_def order_to_dto_def)

text \<open>
  Claim C3, amended: cancelling succeeds for every stored order, whatever its status
  (\<^verbatim>\<open>PENDING\<close>, \<^verbatim>\<open>ORDERED\<close>, \<^verbatim>\<open>DELIVERED\<close> or \<^verbatim>\<open>CANCELLED\<close>): the order is
  stored with status \<^verbatim>\<open>CANCELLED\<close>, nothing else of it changes, and it is returned
  with that status. No transition is refused; only an unknown order id gives
  \<^verbatim>\<open>None\<close>, and then nothing changes.
\<close>

theorem cancel_from_any_status:
  "(\<forall>order. order_get_by_id (orders w) order_id = Some order \<longrightarrow>
      snd (UpdateOrderStatusUseCase_execute w inventory_client order_id ''CANCELLED'')
        = Inr (Some (order_to_dto (order\<lparr>po_status := CANCELLED\<rparr>))) \<and>
      order_get_by_id
        (orders (fst (UpdateOrderStatusUseCase_execute w inventory_client order_id ''CANCELLED'')))
        order_id = Some (order\<lparr>po_status := CANCELLED\<rparr>) \<and>
      od_status (order_to_dto (order\<lparr>po_status := CANCELLED\<rparr>)) = ''CANCELLED'') \<and>
   (order_get_by_id (orders w) order_id = None \<longrightarrow>
      UpdateOrderStatusUseCase_execute w inventory_client order_id ''CANCELLED'' = (w, Inr None))"
proof (intro conjI allI impI)
  fix order
  assume found: "order_get_by_id (orders w) order_id = Some order"
  have run: "UpdateOrderStatusUseCase_execute w inventory_client order_id ''CANCELLED'' =
               (w\<lparr>orders := order_update (orders w) (cancel order)\<rparr>,
                Inr (Some (order_to_dto (cancel order))))"
    using found by (simp add: UpdateOrderStatusUseCase_execute_def Let_def)
  show "snd (UpdateOrderStatusUseCase_execute w inventory_client order_id ''CANCELLED'')
          = Inr (Some (order_to_dto (order\<lparr>po_status := CANCELLED\<rparr>)))"
    by (simp add: run cancel_def)
  show "order_get_by_id
          (orders (fst (UpdateOrderStatusUseCase_execute w inventory_client order_id ''CANCELLED'')))
          order_id = Some (order\<lparr>po_status := CANCELLED\<rparr>)"
    using order_get_by_id_update_same [OF found, of "cancel order"]
    by (simp add: run cancel_def)
  show "od_status (order_to_dto (order\<lparr>po_status := CANCELLED\<rparr>)) = ''CANCELLED''"
    by (simp add: order_to_dto_def)
next
  assume "order_get_by_id (orders w) order_id = None"
  then show "UpdateOrderStatusUseCase_execute w inventory_client order_id ''CANCELLED''
               = (w, Inr None)"
    by (simp add: UpdateOrderStatusUseCase_execute_def)
qed

theorem cancel_from_any_status_witness:
  "order_get_by_id (orders (sample_world ORDERED)) ''o1'' = Some (sample_order ORDERED) \<and>
   order_get_by_id
     (orders (fst (UpdateOrderStatusUseCase_execute (sample_world ORDERED) False
                     ''o1'' ''CANCELLED''))) ''o1'' = Some (sample_order CANCELLED) \<and>
   order_get_by_id (orders (sample_world CANCELLED)) ''o1'' = Some (sample_order CANCELLED) \<and>
   order_get_by_id
     (orders (fst (UpdateOrderStatusUseCase_execute (sample_world CANCELLED) False
                     ''o1'' ''CANCELLED''))) ''o1'' = Some (sample_order CANCELLED) \<and>
   order_get_by_id (orders (sample_world ORDERED)) ''o2'' = None \<and>
   UpdateOrderStatusUseCase_execute (sample_world ORDERED) False ''o2'' ''CANCELLED''
     = (sample_world ORDERED, Inr None)"
proof -
  have missing: "order_get_by_id (orders (sample_world ORDERED)) ''o2'' = None"
    by (simp add: sample_world_def order_get_by_id_def sample_order_def)
  have st: "(sample_order st)\<lparr>po_status := CANCELLED\<rparr> = sample_order CANCELLED" for st
    by (simp add: sample_order_def)
  from cancel_from_any_status [of "sample_world ORDERED" "''o1''" False]
    sample_order_found [of ORDERED]
  have a: "order_get_by_id
     (orders (fst (UpdateOrderStatusUseCase_execute (sample_world ORDERED) False
                     ''o1'' ''CANCELLED''))) ''o1'' = Some (sample_order CANCELLED)"
    by (simp add: st)
  from cancel_from_any_status [of "sample_world CANCELLED" "''o1''" False]
    sample_order_found [of CANCELLED]
  have b: "order_get_by_id
     (orders (fst (UpdateOrderStatusUseCase_execute (sample_world CANCELLED) False
                     ''o1'' ''CANCELLED''))) ''o1'' = Some (sample_order CANCELLED)"
    by (simp add: st)
  from cancel_from_any_status [of "sample_world ORDERED" "''o2''" False] missing
  have c: "UpdateOrderStatusUseCase_execute (sample_world ORDERED) False ''o2'' ''CANCELLED''
     = (sample_world ORDERED, Inr None)"
    by simp
  from a b c missing sample_order_found [of ORDERED] sample_order_found [of CANCELLED]
  show ?thesis by simp
qed

text \<open>
  Claim C2: marking an \<^verbatim>\<open>ORDERED\<close> order as delivered sets its status to
  \<^verbatim>\<open>DELIVERED\<close> and increases the ledger's quantity of the material by the order's
  quantity through a \<^verbatim>\<open>PURCHASE\<close> stock movement. The code does the first half only:
  for an order of 40 and a configured inventory client, the ledger afterwards is the
  ledger before, with quantity 100 and no stock movement.
\<close>

theorem mark_delivered_leaves_ledger:
  "map_option po_status (order_get_by_id (orders (sample_world ORDERED)) ''o1'') = Some ORDERED \<and>
   map_option po_quantity (order_get_by_id (orders (sample_world ORDERED)) ''o1'') = Some 40 \<and>
   map_option po_status
     (order_get_by_id
        (orders (fst (UpdateOrderStatusUseCase_execute (sample_world ORDERED) True
                        ''o1'' ''DELIVERED''))) ''o1'') = Some DELIVERED \<and>
   inventory (fst (UpdateOrderStatusUseCase_execute (sample_world ORDERED) True
                     ''o1'' ''DELIVERED'')) = sand_ledger 100 90 \<and>
   map_option m_quantity (materials (sand_ledger 100 90) ''m1'') = Some 100 \<and>
   movements (sand_ledger 100 90) = []"
proof -
  have "UpdateOrderStatusUseCase_execute (sample_world ORDERED) True ''o1'' ''DELIVERED'' =
          (\<lparr>orders = [sample_order DELIVERED], inventory = sand_ledger 100 90\<rparr>,
           Inr (Some (order_to_dto (sample_order DELIVERED))))"
    by (simp add: UpdateOrderStatusUseCase_execute_def sample_order_found Let_def)
       (simp add: sample_world_def sample_order_def order_update_def mark_as_delivered_def
          update_inventory_def)
  then show ?thesis
    by (simp add: sample_order_found)
       (simp add: sample_order_def order_get_by_id_def sand_ledger_def sand_def)
qed

end
